theory Spec2Isabelle
  imports Complex_Main "HOL-Library.AList"
begin

section \<open>Python values\<close>

text \<open>
  The SDK handles decoded JSON (\<open>Dict[str, Any]\<close>). A value is one of Python's
  \<open>None\<close>, \<open>bool\<close>, \<open>int\<close>, \<open>float\<close> (read as a real number), \<open>str\<close>, \<open>list\<close> or
  \<open>dict\<close>. A dict is an association list in insertion order; a well-formed dict has
  distinct keys.
\<close>

datatype pyval =
    PNone
  | PBool bool
  | PInt int
  | PFloat real
  | PStr string
  | PList "pyval list"
  | PDict "(string \<times> pyval) list"

type_synonym pydict = "(string \<times> pyval) list"

text \<open>Python's truth value of an object, as \<open>if x:\<close> and \<open>x and y\<close> test it.\<close>

fun truthy :: "pyval \<Rightarrow> bool" where
  "truthy PNone = False"
| "truthy (PBool b) = b"
| "truthy (PInt n) = (n \<noteq> 0)"
| "truthy (PFloat x) = (x \<noteq> 0)"
| "truthy (PStr s) = (s \<noteq> [])"
| "truthy (PList xs) = (xs \<noteq> [])"
| "truthy (PDict d) = (d \<noteq> [])"

text \<open>\<open>d.get(key, default)\<close> on a dict; \<open>d.get(key)\<close> has the default \<open>None\<close>.\<close>

definition dict_get :: "pydict \<Rightarrow> string \<Rightarrow> pyval \<Rightarrow> pyval" where
  "dict_get d key dflt = (case map_of d key of None \<Rightarrow> dflt | Some v \<Rightarrow> v)"

section \<open>Result and Execution\<close>

record Result =
  r_is_main_result :: pyval
  r_raw :: pydict
  r_text :: pyval
  r_html :: pyval
  r_markdown :: pyval
  r_svg :: pyval
  r_png :: pyval
  r_jpeg :: pyval
  r_pdf :: pyval
  r_latex :: pyval
  r_json :: pyval
  r_javascript :: pyval
  r_data :: pyval
  r_chart :: pyval
  r_extra :: pydict

definition reserved_keys :: "string list" where
  "reserved_keys =
     [''text'', ''html'', ''markdown'', ''svg'', ''png'', ''jpeg'', ''pdf'', ''latex'',
      ''json'', ''javascript'', ''data'', ''chart'', ''type'', ''is_main_result'']"

text \<open>
  The loop of \<open>Result.__init__\<close> over \<open>raw_data.items()\<close>: \<open>self.extra[key] = value\<close>
  replaces the value of a key already present and appends a new key at the end.
\<close>

fun collect_extra :: "pydict \<Rightarrow> pydict \<Rightarrow> pydict" where
  "collect_extra [] extra = extra"
| "collect_extra ((key, v) # items) extra =
     (if key \<notin> set reserved_keys
      then collect_extra items (AList.update key v extra)
      else collect_extra items extra)"

definition Result_init :: "pydict \<Rightarrow> pyval \<Rightarrow> Result" where
  "Result_init raw_data is_main =
     \<lparr> r_is_main_result = is_main,
       r_raw = raw_data,
       r_text = dict_get raw_data ''text'' PNone,
       r_html = dict_get raw_data ''html'' PNone,
       r_markdown = dict_get raw_data ''markdown'' PNone,
       r_svg = dict_get raw_data ''svg'' PNone,
       r_png = dict_get raw_data ''png'' PNone,
       r_jpeg = dict_get raw_data ''jpeg'' PNone,
       r_pdf = dict_get raw_data ''pdf'' PNone,
       r_latex = dict_get raw_data ''latex'' PNone,
       r_json = dict_get raw_data ''json'' PNone,
       r_javascript = dict_get raw_data ''javascript'' PNone,
       r_data = dict_get raw_data ''data'' PNone,
       r_chart = dict_get raw_data ''chart'' PNone,
       r_extra = collect_extra raw_data [] \<rparr>"

text \<open>\<open>if self.x: formats.append("x")\<close>, one format after the other.\<close>

definition append_if :: "pyval \<Rightarrow> string \<Rightarrow> string list \<Rightarrow> string list" where
  "append_if v name fs = (if truthy v then fs @ [name] else fs)"

definition formats :: "Result \<Rightarrow> string list" where
  "formats r =
     (let fs = [];
          fs = append_if (r_text r) ''text'' fs;
          fs = append_if (r_html r) ''html'' fs;
          fs = append_if (r_markdown r) ''markdown'' fs;
          fs = append_if (r_svg r) ''svg'' fs;
          fs = append_if (r_png r) ''png'' fs;
          fs = append_if (r_jpeg r) ''jpeg'' fs;
          fs = append_if (r_pdf r) ''pdf'' fs;
          fs = append_if (r_latex r) ''latex'' fs;
          fs = append_if (r_json r) ''json'' fs;
          fs = append_if (r_javascript r) ''javascript'' fs;
          fs = append_if (r_data r) ''data'' fs;
          fs = append_if (r_chart r) ''chart'' fs
      in fs @ map fst (r_extra r))"

record Logs =
  stdout :: pyval
  stderr :: pyval

record ExecutionError =
  ee_name :: pyval
  ee_value :: pyval
  ee_traceback :: pyval

record Execution =
  results :: "Result list"
  logs :: Logs
  error :: "ExecutionError option"
  execution_count :: pyval

text \<open>
  The loop of the \<open>text\<close> property: the first result with a true \<open>is_main_result\<close>
  and a true \<open>text\<close> gives its text; \<open>None\<close> when the loop ends.
\<close>

fun first_main_text :: "Result list \<Rightarrow> pyval" where
  "first_main_text [] = PNone"
| "first_main_text (r # rs) =
     (if truthy (r_is_main_result r) \<and> truthy (r_text r) then r_text r
      else first_main_text rs)"

definition Execution_text :: "Execution \<Rightarrow> pyval" where
  "Execution_text e = first_main_text (results e)"

text \<open>The recognised formats, in the order \<open>formats\<close> tests them.\<close>

definition known_formats :: "string list" where
  "known_formats =
     [''text'', ''html'', ''markdown'', ''svg'', ''png'', ''jpeg'', ''pdf'', ''latex'',
      ''json'', ''javascript'', ''data'', ''chart'']"

section \<open>Formatting integers\<close>

text \<open>
  The f-strings of the SDK put integers into messages and URLs: \<open>str\<close> of a Python
  \<open>int\<close> is its decimal numeral, and \<open>str(None)\<close> is \<open>None\<close>.
\<close>

definition digit_char :: "nat \<Rightarrow> char" where
  "digit_char d = ''0123456789'' ! d"

function str_nat :: "nat \<Rightarrow> string" where
  "str_nat n = (if n < 10 then [digit_char n] else str_nat (n div 10) @ [digit_char (n mod 10)])"
  by pat_completeness auto
termination
  by (relation "measure id") auto

declare str_nat.simps [simp del]

definition str_int :: "int \<Rightarrow> string" where
  "str_int i = (if i < 0 then CHR ''-'' # str_nat (nat (- i)) else str_nat (nat i))"

definition str_opt_int :: "int option \<Rightarrow> string" where
  "str_opt_int x = (case x of None \<Rightarrow> ''None'' | Some i \<Rightarrow> str_int i)"

text \<open>Python's \<open>int(x)\<close> of a float truncates towards zero.\<close>

definition py_int :: "real \<Rightarrow> int" where
  "py_int x = (if 0 \<le> x then \<lfloor>x\<rfloor> else \<lceil>x\<rceil>)"

section \<open>Errors\<close>

text \<open>
  The exception classes of the SDK, each with the message given to its constructor
  (\<open>RateLimitError\<close> holds \<open>retry_after\<close> and builds its message from it), and
  \<open>PyException cls msg\<close> for every other subclass of \<open>Exception\<close>: the class name and
  \<open>str(e)\<close>.
\<close>

datatype sdk_error =
    SandboxSDKError string
  | ConnectionError string
  | TimeoutError string
  | SandboxError string
  | RateLimitError int
  | PyException string string

text \<open>\<open>str(e)\<close>.\<close>

fun str_of_error :: "sdk_error \<Rightarrow> string" where
  "str_of_error (SandboxSDKError msg) = msg"
| "str_of_error (ConnectionError msg) = msg"
| "str_of_error (TimeoutError msg) = msg"
| "str_of_error (SandboxError msg) = msg"
| "str_of_error (RateLimitError retry_after) =
     ''Rate limit exceeded. Retry after '' @ str_int retry_after @ ''ms''"
| "str_of_error (PyException cls msg) = msg"

section \<open>MetricsCollector\<close>

text \<open>
  Times are Python floats, read as real numbers. \<open>last_updated\<close> is the reading of the
  clock (\<open>datetime.now()\<close>) when the \<open>MetricsData\<close> was made.
\<close>

record MetricsData =
  total_requests :: int
  successful_requests :: int
  failed_requests :: int
  average_response_time :: real
  total_execution_time :: real
  md_active_sandboxes :: int
  last_updated :: real

definition MetricsData_init :: "real \<Rightarrow> MetricsData" where
  "MetricsData_init now =
     \<lparr> total_requests = 0, successful_requests = 0, failed_requests = 0,
       average_response_time = 0, total_execution_time = 0, md_active_sandboxes = 0,
       last_updated = now \<rparr>"

record MetricsCollector =
  metrics :: MetricsData
  response_times :: "real list"

definition MetricsCollector_init :: "real \<Rightarrow> MetricsCollector" where
  "MetricsCollector_init now = \<lparr> metrics = MetricsData_init now, response_times = [] \<rparr>"

definition update_average_response_time :: "MetricsCollector \<Rightarrow> MetricsCollector" where
  "update_average_response_time mc =
     (if response_times mc = [] then mc
      else mc\<lparr> metrics := (metrics mc)\<lparr> average_response_time :=
             sum_list (response_times mc) / real (length (response_times mc)) \<rparr> \<rparr>)"

definition metrics_record_request :: "MetricsCollector \<Rightarrow> bool \<Rightarrow> real \<Rightarrow> MetricsCollector" where
  "metrics_record_request mc success response_time =
     (let m = metrics mc;
          m = m\<lparr> total_requests := total_requests m + 1 \<rparr>;
          m = (if success then m\<lparr> successful_requests := successful_requests m + 1 \<rparr>
               else m\<lparr> failed_requests := failed_requests m + 1 \<rparr>);
          rts = response_times mc @ [response_time];
          rts = (if length rts > 1000 then tl rts else rts)
      in update_average_response_time \<lparr> metrics = m, response_times = rts \<rparr>)"

definition record_execution :: "MetricsCollector \<Rightarrow> real \<Rightarrow> MetricsCollector" where
  "record_execution mc duration =
     mc\<lparr> metrics := (metrics mc)\<lparr> total_execution_time :=
            total_execution_time (metrics mc) + duration \<rparr> \<rparr>"

definition update_active_sandboxes :: "MetricsCollector \<Rightarrow> int \<Rightarrow> MetricsCollector" where
  "update_active_sandboxes mc count =
     mc\<lparr> metrics := (metrics mc)\<lparr> md_active_sandboxes := count \<rparr> \<rparr>"

definition metrics_get_metrics :: "MetricsCollector \<Rightarrow> real \<Rightarrow> MetricsData" where
  "metrics_get_metrics mc now = (metrics mc)\<lparr> last_updated := now \<rparr>"

definition reset :: "MetricsCollector \<Rightarrow> real \<Rightarrow> MetricsCollector" where
  "reset mc now = \<lparr> metrics = MetricsData_init now, response_times = [] \<rparr>"

text \<open>A call of the collector, and a sequence of calls in order.\<close>

datatype metrics_call =
    RecordRequest bool real
  | RecordExecution real
  | UpdateActiveSandboxes int
  | Reset real

fun metrics_step :: "MetricsCollector \<Rightarrow> metrics_call \<Rightarrow> MetricsCollector" where
  "metrics_step mc (RecordRequest success response_time) =
     metrics_record_request mc success response_time"
| "metrics_step mc (RecordExecution duration) = record_execution mc duration"
| "metrics_step mc (UpdateActiveSandboxes count) = update_active_sandboxes mc count"
| "metrics_step mc (Reset now) = reset mc now"

definition metrics_run :: "MetricsCollector \<Rightarrow> metrics_call list \<Rightarrow> MetricsCollector" where
  "metrics_run mc calls = foldl metrics_step mc calls"

text \<open>
  What the calls recorded, for comparison with the collector: every response time
  given to \<open>record_request\<close>, in order; the response times given since the latest
  \<open>reset\<close>; and the last \<open>n\<close> elements of a list.
\<close>

fun samples_ever :: "metrics_call list \<Rightarrow> real list" where
  "samples_ever [] = []"
| "samples_ever (RecordRequest success response_time # calls) =
     response_time # samples_ever calls"
| "samples_ever (c # calls) = samples_ever calls"

fun samples_step :: "real list \<Rightarrow> metrics_call \<Rightarrow> real list" where
  "samples_step acc (RecordRequest success response_time) = acc @ [response_time]"
| "samples_step acc (Reset now) = []"
| "samples_step acc c = acc"

definition samples_since_reset :: "metrics_call list \<Rightarrow> real list" where
  "samples_since_reset calls = foldl samples_step [] calls"

definition last_n :: "nat \<Rightarrow> 'a list \<Rightarrow> 'a list" where
  "last_n n xs = drop (length xs - n) xs"

definition mean :: "real list \<Rightarrow> real" where
  "mean xs = sum_list xs / real (length xs)"

text \<open>What holds of a collector after calls that recorded the samples \<open>s\<close> since the latest reset.\<close>

definition metrics_inv :: "MetricsCollector \<Rightarrow> real list \<Rightarrow> bool" where
  "metrics_inv mc s =
     (total_requests (metrics mc) = successful_requests (metrics mc) + failed_requests (metrics mc)
      \<and> response_times mc = last_n 1000 s
      \<and> average_response_time (metrics mc) = (if last_n 1000 s = [] then 0 else mean (last_n 1000 s)))"

section \<open>RateLimiter\<close>

text \<open>
  \<open>now\<close> is \<open>time.time() * 1000\<close>, the reading of the clock in milliseconds at the
  call.
\<close>

record RateLimiter =
  max_requests_per_minute :: int
  request_timestamps :: "real list"
  concurrent_jobs :: int

definition RateLimiter_init :: "int \<Rightarrow> RateLimiter" where
  "RateLimiter_init max_rpm =
     \<lparr> max_requests_per_minute = max_rpm, request_timestamps = [], concurrent_jobs = 0 \<rparr>"

definition can_make_request :: "RateLimiter \<Rightarrow> real \<Rightarrow> bool \<times> RateLimiter" where
  "can_make_request rl now =
     (let one_minute_ago = now - 60000;
          rl = rl\<lparr> request_timestamps :=
                 filter (\<lambda>ts. ts > one_minute_ago) (request_timestamps rl) \<rparr>
      in (int (length (request_timestamps rl)) < max_requests_per_minute rl, rl))"

definition limiter_record_request :: "RateLimiter \<Rightarrow> real \<Rightarrow> RateLimiter" where
  "limiter_record_request rl now =
     rl\<lparr> request_timestamps := request_timestamps rl @ [now] \<rparr>"

definition get_retry_after :: "RateLimiter \<Rightarrow> real \<Rightarrow> int" where
  "get_retry_after rl now =
     (case request_timestamps rl of
        [] \<Rightarrow> 0
      | oldest_timestamp # rest \<Rightarrow> max (py_int (60000 - (now - oldest_timestamp))) 0)"

definition increment_concurrent_jobs :: "RateLimiter \<Rightarrow> int \<times> RateLimiter" where
  "increment_concurrent_jobs rl =
     (concurrent_jobs rl + 1, rl\<lparr> concurrent_jobs := concurrent_jobs rl + 1 \<rparr>)"

definition decrement_concurrent_jobs :: "RateLimiter \<Rightarrow> int \<times> RateLimiter" where
  "decrement_concurrent_jobs rl =
     (max (concurrent_jobs rl - 1) 0, rl\<lparr> concurrent_jobs := max (concurrent_jobs rl - 1) 0 \<rparr>)"

definition get_concurrent_jobs :: "RateLimiter \<Rightarrow> int" where
  "get_concurrent_jobs rl = concurrent_jobs rl"

text \<open>Recording one request at each of the given clock readings, in order.\<close>

definition record_requests_at :: "RateLimiter \<Rightarrow> real list \<Rightarrow> RateLimiter" where
  "record_requests_at rl stamps = foldl limiter_record_request rl stamps"

text \<open>
  The reading "older than 60000 ms relative to now" of the contract: a timestamp
  whose age \<open>now - ts\<close> exceeds 60000.
\<close>

definition older_than_minute :: "real \<Rightarrow> real \<Rightarrow> bool" where
  "older_than_minute now ts = (now - ts > 60000)"

section \<open>The environment of the SDK\<close>

text \<open>
  One call of \<open>requests.request\<close> gets a request and ends in one of four ways:
  \<^item> \<open>Response data\<close>: the status is good and \<open>response.json()\<close> is \<open>data\<close>;
  \<^item> \<open>Timeout\<close>: \<open>requests.exceptions.Timeout\<close> is raised;
  \<^item> \<open>RequestException str_e response\<close>: another \<open>RequestException\<close> \<open>e\<close> is raised
    (by the call, by \<open>raise_for_status\<close> or by \<open>response.json()\<close>), with \<open>str(e)\<close> and
    \<open>e.response\<close>;
  \<^item> \<open>OtherException cls str_e\<close>: an exception \<open>e\<close> of a class \<open>cls\<close> that is not a
    \<open>RequestException\<close> is raised, with \<open>str(e)\<close>; so \<open>ValueError\<close> when the timeout is
    not positive.
  A failing response has its status code and its body: \<open>resp_json\<close> is \<open>None\<close> when
  \<open>e.response.json()\<close> raises, else the decoded body.
\<close>

record http_request =
  req_method :: string
  req_url :: string
  req_json :: pyval
  req_headers :: "(string \<times> string) list"
  req_timeout :: real

record http_response =
  status_code :: int
  resp_json :: "pyval option"

datatype http_outcome =
    Response pyval
  | Timeout
  | RequestException string "http_response option"
  | OtherException string string

text \<open>
  What the code takes from outside: the network (the outcome of the \<open>n\<close>-th call of
  \<open>requests.request\<close> and the seconds it takes), \<open>uuid.uuid4()\<close>, and the message
  the interpreter gives an exception of its own (\<open>AttributeError\<close>, \<open>KeyError\<close>,
  \<open>TypeError\<close>), and the text an f-string gives a float, a list or a dict.
\<close>

record env =
  transport :: "nat \<Rightarrow> http_request \<Rightarrow> http_outcome \<times> real"
  uuid4 :: "nat \<Rightarrow> string"
  interp_msg :: "string \<Rightarrow> string"
  interp_str :: "pyval \<Rightarrow> string"

definition interp_error :: "env \<Rightarrow> string \<Rightarrow> sdk_error" where
  "interp_error env cls = PyException cls (interp_msg env cls)"

text \<open>
  \<open>v.get(key, default)\<close>, \<open>v[key]\<close> with a string key, \<open>for x in v\<close> and the use of a
  value as a dict key, on a value of any type.
\<close>

fun py_get :: "env \<Rightarrow> pyval \<Rightarrow> string \<Rightarrow> pyval \<Rightarrow> sdk_error + pyval" where
  "py_get env (PDict d) key dflt = Inr (dict_get d key dflt)"
| "py_get env v key dflt = Inl (interp_error env ''AttributeError'')"

fun py_getitem :: "env \<Rightarrow> pyval \<Rightarrow> string \<Rightarrow> sdk_error + pyval" where
  "py_getitem env (PDict d) key =
     (case map_of d key of None \<Rightarrow> Inl (interp_error env ''KeyError'') | Some v \<Rightarrow> Inr v)"
| "py_getitem env v key = Inl (interp_error env ''TypeError'')"

fun py_iter :: "env \<Rightarrow> pyval \<Rightarrow> sdk_error + pyval list" where
  "py_iter env (PList xs) = Inr xs"
| "py_iter env (PStr s) = Inr (map (\<lambda>c. PStr [c]) s)"
| "py_iter env (PDict d) = Inr (map (\<lambda>kv. PStr (fst kv)) d)"
| "py_iter env v = Inl (interp_error env ''TypeError'')"

fun py_format :: "env \<Rightarrow> pyval \<Rightarrow> string" where
  "py_format env (PStr s) = s"
| "py_format env (PInt i) = str_int i"
| "py_format env PNone = ''None''"
| "py_format env (PBool b) = (if b then ''True'' else ''False'')"
| "py_format env v = interp_str env v"

fun hashable :: "pyval \<Rightarrow> bool" where
  "hashable (PList xs) = False"
| "hashable (PDict d) = False"
| "hashable v = True"

text \<open>
  The keys of a dict are compared with \<open>==\<close>: \<open>True\<close>, \<open>1\<close> and \<open>1.0\<close> are one key.
  \<open>key_norm\<close> gives equal keys the same value. \<open>d[k] = v\<close> on a dict that has an equal
  key keeps that key and replaces its value, and else adds \<open>k\<close> at the end.
\<close>

fun key_norm :: "pyval \<Rightarrow> pyval" where
  "key_norm (PBool b) = PInt (if b then 1 else 0)"
| "key_norm (PFloat x) = (if real_of_int \<lfloor>x\<rfloor> = x then PInt \<lfloor>x\<rfloor> else PFloat x)"
| "key_norm v = v"

definition dict_setitem :: "pyval \<Rightarrow> 'v \<Rightarrow> (pyval \<times> 'v) list \<Rightarrow> (pyval \<times> 'v) list" where
  "dict_setitem k v d =
     (case find (\<lambda>kv. key_norm (fst kv) = key_norm k) d of
        None \<Rightarrow> d @ [(k, v)]
      | Some kv \<Rightarrow> AList.update (fst kv) v d)"

section \<open>The SDK object\<close>

record Config =
  api_key :: string
  server_url :: string
  timeout :: int
  max_retries :: int
  retry_delay :: int
  enable_logging :: bool
  log_level :: string
  enable_metrics :: bool
  metrics_interval :: int

text \<open>
  The fields of \<open>SandboxSDK\<close> that the operations read and write, and with them the
  two things outside it that they change: the clock (\<open>time.time()\<close>, in seconds) and
  the requests given to \<open>requests.request\<close> so far. The caches are dicts in insertion
  order, from ids to the decoded sandbox or context.
\<close>

record SandboxSDK =
  config :: Config
  active_sandboxes :: "(pyval \<times> pyval) list"
  active_contexts :: "(pyval \<times> pyval) list"
  metrics_collector :: MetricsCollector
  rate_limiter :: RateLimiter
  time_now :: real
  requests_sent :: "http_request list"

text \<open>
  The constructor, for a configuration with \<open>api_key\<close> and \<open>server_url\<close> of any type and
  the other keys absent or of their declared types.
\<close>

record config_input =
  in_api_key :: pyval
  in_server_url :: pyval
  in_timeout :: "int option"
  in_max_retries :: "int option"
  in_retry_delay :: "int option"
  in_enable_logging :: "bool option"
  in_log_level :: "string option"
  in_enable_metrics :: "bool option"
  in_metrics_interval :: "int option"

definition or_default :: "'a option \<Rightarrow> 'a \<Rightarrow> 'a" where
  "or_default x d = (case x of None \<Rightarrow> d | Some v \<Rightarrow> v)"

definition SandboxSDK_init :: "config_input \<Rightarrow> real \<Rightarrow> sdk_error + SandboxSDK" where
  "SandboxSDK_init cfg now =
     (case in_api_key cfg of
        PStr key \<Rightarrow>
          (if key = [] then Inl (SandboxSDKError ''Invalid API key provided'')
           else
             (case in_server_url cfg of
                PStr url \<Rightarrow>
                  (if url = [] then Inl (SandboxSDKError ''Invalid server URL provided'')
                   else Inr
                     \<lparr> config =
                         \<lparr> api_key = key, server_url = url,
                           timeout = or_default (in_timeout cfg) 60000,
                           max_retries = or_default (in_max_retries cfg) 3,
                           retry_delay = or_default (in_retry_delay cfg) 1000,
                           enable_logging = or_default (in_enable_logging cfg) False,
                           log_level = or_default (in_log_level cfg) ''info'',
                           enable_metrics = or_default (in_enable_metrics cfg) False,
                           metrics_interval = or_default (in_metrics_interval cfg) 30000 \<rparr>,
                       active_sandboxes = [],
                       active_contexts = [],
                       metrics_collector = MetricsCollector_init now,
                       rate_limiter = RateLimiter_init 60,
                       time_now = now,
                       requests_sent = [] \<rparr>)
              | other \<Rightarrow> Inl (SandboxSDKError ''Invalid server URL provided''))
           )
      | other \<Rightarrow> Inl (SandboxSDKError ''Invalid API key provided''))"

section \<open>The HTTP request helper\<close>

text \<open>
  The \<open>try\<close> block inside the handler of \<open>RequestException\<close> never ends normally: it
  raises \<open>SandboxError\<close> with the \<open>message\<close> of the body (or the status line), or
  fails before that (\<open>e.response\<close> is \<open>None\<close>, the body is not JSON, the body has no
  \<open>get\<close>). The bare \<open>except:\<close> after it catches whatever the block raised, the
  \<open>SandboxError\<close> too, and raises \<open>SandboxError(str(e))\<close>.
\<close>

datatype raised = Raised_SandboxError pyval | Raised_other

definition try_error_data :: "http_response option \<Rightarrow> raised" where
  "try_error_data response =
     (case response of
        None \<Rightarrow> Raised_other
      | Some r \<Rightarrow>
          (case resp_json r of
             None \<Rightarrow> Raised_other
           | Some (PDict error_data) \<Rightarrow>
               Raised_SandboxError
                 (dict_get error_data ''message''
                    (PStr (''Request failed with status '' @ str_int (status_code r))))
           | Some other \<Rightarrow> Raised_other))"

definition except_all :: "string \<Rightarrow> raised \<Rightarrow> sdk_error" where
  "except_all str_e r =
     (case r of
        Raised_SandboxError message \<Rightarrow> SandboxError str_e
      | Raised_other \<Rightarrow> SandboxError str_e)"

text \<open>\<open>timeout_ms or self.config["timeout"]\<close>: \<open>None\<close> and \<open>0\<close> are false.\<close>

definition effective_timeout :: "SandboxSDK \<Rightarrow> int option \<Rightarrow> int" where
  "effective_timeout sdk timeout_ms =
     (case timeout_ms of
        None \<Rightarrow> timeout (config sdk)
      | Some t \<Rightarrow> (if t \<noteq> 0 then t else timeout (config sdk)))"

text \<open>
  The arguments of \<open>requests.request\<close>: the method, the URL, the JSON payload, the two
  headers and the timeout in seconds.
\<close>

definition request_args ::
  "SandboxSDK \<Rightarrow> string \<Rightarrow> string \<Rightarrow> pyval \<Rightarrow> int option \<Rightarrow> http_request" where
  "request_args sdk method endpoint payload timeout_ms =
     (let url = server_url (config sdk) @ endpoint;
          timeout_s = real_of_int (effective_timeout sdk timeout_ms) / 1000
      in \<lparr> req_method = method, req_url = url, req_json = payload,
           req_headers =
             [(''Content-Type'', ''application/json''),
              (''Authorization'', ''Bearer '' @ api_key (config sdk))],
           req_timeout = timeout_s \<rparr>)"

definition make_request ::
  "env \<Rightarrow> SandboxSDK \<Rightarrow> string \<Rightarrow> string \<Rightarrow> pyval \<Rightarrow> int option
     \<Rightarrow> (sdk_error + pyval) \<times> SandboxSDK" where
  "make_request env sdk method endpoint payload timeout_ms =
     (let start_time = time_now sdk;
          req = request_args sdk method endpoint payload timeout_ms;
          (outcome, seconds) = transport env (length (requests_sent sdk)) req;
          sdk = sdk\<lparr> requests_sent := requests_sent sdk @ [req],
                     time_now := time_now sdk + seconds \<rparr>
      in case outcome of
           Response data \<Rightarrow>
             (Inr data,
              sdk\<lparr> metrics_collector :=
                     metrics_record_request (metrics_collector sdk) True
                       ((time_now sdk - start_time) * 1000) \<rparr>)
         | Timeout \<Rightarrow>
             (Inl (TimeoutError (''Request timeout after '' @ str_opt_int timeout_ms @ ''ms'')),
              sdk\<lparr> metrics_collector :=
                     metrics_record_request (metrics_collector sdk) False
                       ((time_now sdk - start_time) * 1000) \<rparr>)
         | RequestException str_e response \<Rightarrow>
             (Inl (except_all str_e (try_error_data response)),
              sdk\<lparr> metrics_collector :=
                     metrics_record_request (metrics_collector sdk) False
                       ((time_now sdk - start_time) * 1000) \<rparr>)
         | OtherException cls str_e \<Rightarrow> (Inl (PyException cls str_e), sdk))"

section \<open>Private helpers\<close>

definition check_rate_limit :: "SandboxSDK \<Rightarrow> (sdk_error + unit) \<times> SandboxSDK" where
  "check_rate_limit sdk =
     (let now = time_now sdk * 1000;
          (ok, rl) = can_make_request (rate_limiter sdk) now
      in if \<not> ok then (Inl (RateLimitError (get_retry_after rl now)), sdk\<lparr> rate_limiter := rl \<rparr>)
         else (Inr (), sdk\<lparr> rate_limiter := limiter_record_request rl now \<rparr>))"

definition not_found :: "string \<Rightarrow> sdk_error" where
  "not_found sandbox_id = SandboxError (''Sandbox '' @ sandbox_id @ '' not found'')"

text \<open>\<open>sandbox_id in self.active_sandboxes\<close>.\<close>

definition has_key :: "('k \<times> 'v) list \<Rightarrow> 'k \<Rightarrow> bool" where
  "has_key d k = (k \<in> set (map fst d))"

text \<open>\<open>sandbox.get("template_config", {}).get("language")\<close>.\<close>

definition template_language :: "env \<Rightarrow> pyval \<Rightarrow> sdk_error + pyval" where
  "template_language env sandbox =
     (case py_get env sandbox ''template_config'' (PDict []) of
        Inl e \<Rightarrow> Inl e
      | Inr template_config \<Rightarrow> py_get env template_config ''language'' PNone)"

section \<open>Sandbox management\<close>

definition create_sandbox ::
  "env \<Rightarrow> SandboxSDK \<Rightarrow> pyval \<Rightarrow> (sdk_error + pyval) \<times> SandboxSDK" where
  "create_sandbox env sdk options =
     (case check_rate_limit sdk of
        (Inl e, sdk) \<Rightarrow> (Inl e, sdk)
      | (Inr u, sdk) \<Rightarrow>
          (case make_request env sdk ''POST'' ''/api/sandboxes/create'' options
                  (Some (timeout (config sdk))) of
             (Inl e, sdk) \<Rightarrow> (Inl e, sdk)
           | (Inr response, sdk) \<Rightarrow>
               (case py_get env response ''sandbox'' PNone of
                  Inl e \<Rightarrow> (Inl e, sdk)
                | Inr sandbox \<Rightarrow>
                    (if truthy sandbox then
                       (case py_getitem env sandbox ''id'' of
                          Inl e \<Rightarrow> (Inl e, sdk)
                        | Inr sid \<Rightarrow>
                            (if hashable sid then
                               (Inr response,
                                sdk\<lparr> active_sandboxes :=
                                       dict_setitem sid sandbox (active_sandboxes sdk) \<rparr>)
                             else (Inl (interp_error env ''TypeError''), sdk)))
                     else (Inr response, sdk)))))"

text \<open>
  The loop of \<open>delete_sandbox\<close> over \<open>list(self.active_contexts.keys())\<close>. An exception
  leaves the loop with the contexts deleted so far.
\<close>

fun delete_contexts_of ::
  "env \<Rightarrow> string \<Rightarrow> pyval list \<Rightarrow> (pyval \<times> pyval) list
     \<Rightarrow> sdk_error option \<times> (pyval \<times> pyval) list" where
  "delete_contexts_of env sandbox_id [] contexts = (None, contexts)"
| "delete_contexts_of env sandbox_id (context_id # ids) contexts =
     (case map_of contexts context_id of
        None \<Rightarrow> (Some (interp_error env ''KeyError''), contexts)
      | Some context \<Rightarrow>
          (case py_get env context ''sandbox_id'' PNone of
             Inl e \<Rightarrow> (Some e, contexts)
           | Inr v \<Rightarrow>
               (if v = PStr sandbox_id
                then delete_contexts_of env sandbox_id ids (AList.delete context_id contexts)
                else delete_contexts_of env sandbox_id ids contexts)))"

definition delete_sandbox ::
  "env \<Rightarrow> SandboxSDK \<Rightarrow> string \<Rightarrow> (sdk_error + unit) \<times> SandboxSDK" where
  "delete_sandbox env sdk sandbox_id =
     (case delete_contexts_of env sandbox_id (map fst (active_contexts sdk))
             (active_contexts sdk) of
        (Some e, contexts) \<Rightarrow> (Inl e, sdk\<lparr> active_contexts := contexts \<rparr>)
      | (None, contexts) \<Rightarrow>
          (let sdk = sdk\<lparr> active_contexts := contexts \<rparr>;
               sdk = (if has_key (active_sandboxes sdk) (PStr sandbox_id)
                      then sdk\<lparr> active_sandboxes :=
                                 AList.delete (PStr sandbox_id) (active_sandboxes sdk) \<rparr>
                      else sdk)
           in case make_request env sdk ''DELETE'' (''/api/sandboxes/'' @ sandbox_id) PNone None of
                (Inl e, sdk) \<Rightarrow> (Inl e, sdk)
              | (Inr response, sdk) \<Rightarrow> (Inr (), sdk)))"

definition get_sandbox_status ::
  "env \<Rightarrow> SandboxSDK \<Rightarrow> string \<Rightarrow> (sdk_error + pyval) \<times> SandboxSDK" where
  "get_sandbox_status env sdk sandbox_id =
     (if \<not> has_key (active_sandboxes sdk) (PStr sandbox_id)
      then (Inl (not_found sandbox_id), sdk)
      else
        (case make_request env sdk ''GET'' (''/api/sandboxes/'' @ sandbox_id @ ''/status'')
                PNone None of
           (Inl e, sdk) \<Rightarrow> (Inl e, sdk)
         | (Inr response, sdk) \<Rightarrow>
             (case py_get env response ''status'' PNone of
                Inl e \<Rightarrow> (Inl e, sdk)
              | Inr status \<Rightarrow>
                  (case map_of (active_sandboxes sdk) (PStr sandbox_id) of
                     None \<Rightarrow> (Inl (interp_error env ''KeyError''), sdk)
                   | Some (PDict sandbox) \<Rightarrow>
                       (Inr status,
                        sdk\<lparr> active_sandboxes :=
                               AList.update (PStr sandbox_id)
                                 (PDict (AList.update ''status'' status sandbox))
                                 (active_sandboxes sdk) \<rparr>)
                   | Some other \<Rightarrow> (Inl (interp_error env ''TypeError''), sdk)))))"

definition list_sandboxes :: "SandboxSDK \<Rightarrow> pyval list" where
  "list_sandboxes sdk = map snd (active_sandboxes sdk)"

section \<open>Template management\<close>

definition get_templates ::
  "env \<Rightarrow> SandboxSDK \<Rightarrow> int \<Rightarrow> int \<Rightarrow> (sdk_error + pyval) \<times> SandboxSDK" where
  "get_templates env sdk page page_size =
     make_request env sdk ''GET''
       (''/api/templates?page='' @ str_int page @ ''&pageSize='' @ str_int page_size) PNone None"

definition get_template ::
  "env \<Rightarrow> SandboxSDK \<Rightarrow> string \<Rightarrow> (sdk_error + pyval) \<times> SandboxSDK" where
  "get_template env sdk template_id =
     make_request env sdk ''GET'' (''/api/templates/'' @ template_id) PNone None"

definition create_template ::
  "env \<Rightarrow> SandboxSDK \<Rightarrow> pyval \<Rightarrow> (sdk_error + pyval) \<times> SandboxSDK" where
  "create_template env sdk template =
     make_request env sdk ''POST'' ''/api/templates'' template None"

section \<open>Code execution\<close>

record OutputMessage =
  om_line :: pyval
  om_timestamp :: int
  om_error :: bool

text \<open>
  The options of \<open>run_code\<close> and \<open>run_terminal\<close>: \<open>opt_envs\<close> is \<open>opts.get("envs")\<close>,
  and \<open>opt_timeout_ms\<close> is \<open>opts.get("timeout_ms")\<close>, \<open>None\<close> or an \<open>int\<close>. A callback is a function of the caller; it
  returns, or raises an exception (\<open>Some e\<close>), and does nothing to the SDK object.
\<close>

record run_opts =
  opt_envs :: pyval
  opt_timeout_ms :: "int option"
  on_result :: "(Result \<Rightarrow> sdk_error option) option"
  on_stdout :: "(OutputMessage \<Rightarrow> sdk_error option) option"
  on_stderr :: "(OutputMessage \<Rightarrow> sdk_error option) option"
  on_error :: "(ExecutionError \<Rightarrow> sdk_error option) option"

definition no_opts :: run_opts where
  "no_opts = \<lparr> opt_envs = PNone, opt_timeout_ms = None, on_result = None, on_stdout = None,
               on_stderr = None, on_error = None \<rparr>"

record ExecutionMetadata =
  execution_id :: string
  md_sandbox_id :: string
  start_time :: real
  end_time :: real
  duration :: real

record ExecutionResult =
  er_execution :: Execution
  er_metadata :: ExecutionMetadata
  er_timestamp :: int

definition decode_logs :: "env \<Rightarrow> pyval \<Rightarrow> sdk_error + Logs" where
  "decode_logs env result =
     (case py_get env result ''logs'' (PDict []) of
        Inl e \<Rightarrow> Inl e
      | Inr logs_out \<Rightarrow>
          (case py_get env logs_out ''stdout'' (PList []) of
             Inl e \<Rightarrow> Inl e
           | Inr out \<Rightarrow>
               (case py_get env result ''logs'' (PDict []) of
                  Inl e \<Rightarrow> Inl e
                | Inr logs_err \<Rightarrow>
                    (case py_get env logs_err ''stderr'' (PList []) of
                       Inl e \<Rightarrow> Inl e
                     | Inr err \<Rightarrow> Inr \<lparr> stdout = out, stderr = err \<rparr>))))"

text \<open>\<open>[Result(r, r.get("is_main_result", False)) for r in result["results"]]\<close>.\<close>

fun make_results :: "env \<Rightarrow> pyval list \<Rightarrow> sdk_error + Result list" where
  "make_results env [] = Inr []"
| "make_results env (PDict r # rs) =
     (case make_results env rs of
        Inl e \<Rightarrow> Inl e
      | Inr xs \<Rightarrow> Inr (Result_init r (dict_get r ''is_main_result'' (PBool False)) # xs))"
| "make_results env (v # rs) = Inl (interp_error env ''AttributeError'')"

definition decode_results :: "env \<Rightarrow> pyval \<Rightarrow> sdk_error + Result list" where
  "decode_results env result =
     (case py_get env result ''results'' PNone of
        Inl e \<Rightarrow> Inl e
      | Inr v \<Rightarrow>
          (if truthy v then
             (case py_iter env v of Inl e \<Rightarrow> Inl e | Inr rs \<Rightarrow> make_results env rs)
           else Inr []))"

definition decode_error :: "env \<Rightarrow> pyval \<Rightarrow> sdk_error + ExecutionError option" where
  "decode_error env result =
     (case py_get env result ''error'' PNone of
        Inl e \<Rightarrow> Inl e
      | Inr error_data \<Rightarrow>
          (if truthy error_data then
             (case py_get env error_data ''name'' PNone of
                Inl e \<Rightarrow> Inl e
              | Inr n \<Rightarrow>
                  (case py_get env error_data ''value'' PNone of
                     Inl e \<Rightarrow> Inl e
                   | Inr v \<Rightarrow>
                       (case py_get env error_data ''traceback'' PNone of
                          Inl e \<Rightarrow> Inl e
                        | Inr tb \<Rightarrow>
                            Inr (Some \<lparr> ee_name = n, ee_value = v, ee_traceback = tb \<rparr>))))
           else Inr None))"

definition decode_execution :: "env \<Rightarrow> pyval \<Rightarrow> sdk_error + Execution" where
  "decode_execution env result =
     (case decode_logs env result of
        Inl e \<Rightarrow> Inl e
      | Inr lg \<Rightarrow>
          (case decode_results env result of
             Inl e \<Rightarrow> Inl e
           | Inr rs \<Rightarrow>
               (case decode_error env result of
                  Inl e \<Rightarrow> Inl e
                | Inr err \<Rightarrow>
                    (case py_get env result ''execution_count'' PNone of
                       Inl e \<Rightarrow> Inl e
                     | Inr n \<Rightarrow>
                         Inr \<lparr> results = rs, logs = lg, error = err,
                               execution_count = n \<rparr>))))"

text \<open>A callback called on each element in order; the first exception ends the loop.\<close>

fun call_each :: "('a \<Rightarrow> sdk_error option) \<Rightarrow> 'a list \<Rightarrow> sdk_error option" where
  "call_each f [] = None"
| "call_each f (x # xs) = (case f x of Some e \<Rightarrow> Some e | None \<Rightarrow> call_each f xs)"

definition call_lines ::
  "env \<Rightarrow> (OutputMessage \<Rightarrow> sdk_error option) option \<Rightarrow> pyval \<Rightarrow> bool \<Rightarrow> real
     \<Rightarrow> sdk_error option" where
  "call_lines env callback lines is_err now =
     (case callback of
        None \<Rightarrow> None
      | Some f \<Rightarrow>
          (if truthy lines then
             (case py_iter env lines of
                Inl e \<Rightarrow> Some e
              | Inr ls \<Rightarrow>
                  call_each f
                    (map (\<lambda>line. \<lparr> om_line = line, om_timestamp = py_int (now * 1000000),
                                    om_error = is_err \<rparr>) ls))
           else None))"

definition first_raised :: "sdk_error option \<Rightarrow> sdk_error option \<Rightarrow> sdk_error option" where
  "first_raised a b = (case a of Some e \<Rightarrow> Some e | None \<Rightarrow> b)"

definition handle_callbacks ::
  "env \<Rightarrow> run_opts \<Rightarrow> Execution \<Rightarrow> real \<Rightarrow> sdk_error option" where
  "handle_callbacks env opts execution now =
     first_raised
       (case on_result opts of
          None \<Rightarrow> None
        | Some f \<Rightarrow> (if results execution \<noteq> [] then call_each f (results execution) else None))
       (first_raised
          (call_lines env (on_stdout opts) (stdout (logs execution)) False now)
          (first_raised
             (call_lines env (on_stderr opts) (stderr (logs execution)) True now)
             (case on_error opts of
                None \<Rightarrow> None
              | Some f \<Rightarrow> (case error execution of None \<Rightarrow> None | Some err \<Rightarrow> f err))))"

definition run_code ::
  "env \<Rightarrow> SandboxSDK \<Rightarrow> string \<Rightarrow> pyval \<Rightarrow> run_opts
     \<Rightarrow> (sdk_error + ExecutionResult) \<times> SandboxSDK" where
  "run_code env sdk sandbox_id code opts =
     (case check_rate_limit sdk of
        (Inl e, sdk) \<Rightarrow> (Inl e, sdk)
      | (Inr u, sdk) \<Rightarrow>
          (case map_of (active_sandboxes sdk) (PStr sandbox_id) of
             None \<Rightarrow> (Inl (not_found sandbox_id), sdk)
           | Some sandbox \<Rightarrow>
               (case template_language env sandbox of
                  Inl e \<Rightarrow> (Inl e, sdk)
                | Inr language \<Rightarrow>
                    (let payload = PDict [(''code'', code), (''language'', language),
                                          (''envVars'', opt_envs opts)];
                         start = time_now sdk
                     in case make_request env sdk ''POST''
                               (''/api/sandboxes/'' @ sandbox_id @ ''/execute'') payload
                               (opt_timeout_ms opts) of
                          (Inl e, sdk) \<Rightarrow> (Inl e, sdk)
                        | (Inr result, sdk) \<Rightarrow>
                            (case decode_execution env result of
                               Inl e \<Rightarrow> (Inl e, sdk)
                             | Inr execution \<Rightarrow>
                                 (case handle_callbacks env opts execution (time_now sdk) of
                                    Some e \<Rightarrow> (Inl e, sdk)
                                  | None \<Rightarrow>
                                      (Inr \<lparr> er_execution = execution,
                                             er_metadata =
                                               \<lparr> execution_id =
                                                   uuid4 env (length (requests_sent sdk)),
                                                 md_sandbox_id = sandbox_id,
                                                 start_time = start,
                                                 end_time = time_now sdk,
                                                 duration = (time_now sdk - start) * 1000 \<rparr>,
                                             er_timestamp = py_int (time_now sdk * 1000) \<rparr>,
                                       sdk)))))))"

definition run_terminal ::
  "env \<Rightarrow> SandboxSDK \<Rightarrow> string \<Rightarrow> string \<Rightarrow> run_opts
     \<Rightarrow> (sdk_error + pyval) \<times> SandboxSDK" where
  "run_terminal env sdk sandbox_id command opts =
     (case check_rate_limit sdk of
        (Inl e, sdk) \<Rightarrow> (Inl e, sdk)
      | (Inr u, sdk) \<Rightarrow>
          (if \<not> has_key (active_sandboxes sdk) (PStr sandbox_id)
           then (Inl (not_found sandbox_id), sdk)
           else
             (case make_request env sdk ''POST''
                     (''/api/sandboxes/'' @ sandbox_id @ ''/terminal'')
                     (PDict [(''command'', PStr command)]) (opt_timeout_ms opts) of
                (Inl e, sdk) \<Rightarrow> (Inl e, sdk)
              | (Inr result, sdk) \<Rightarrow>
                  (case py_get env result ''output'' (PStr []) of
                     Inl e \<Rightarrow> (Inl e, sdk)
                   | Inr output \<Rightarrow>
                       (case on_stdout opts of
                          None \<Rightarrow> (Inr output, sdk)
                        | Some f \<Rightarrow>
                            (case f \<lparr> om_line = output,
                                      om_timestamp = py_int (time_now sdk * 1000000),
                                      om_error = False \<rparr> of
                               Some e \<Rightarrow> (Inl e, sdk)
                             | None \<Rightarrow> (Inr output, sdk)))))))"

section \<open>File management\<close>

definition read_file ::
  "env \<Rightarrow> SandboxSDK \<Rightarrow> string \<Rightarrow> string \<Rightarrow> (sdk_error + pyval) \<times> SandboxSDK" where
  "read_file env sdk sandbox_id path =
     (if \<not> has_key (active_sandboxes sdk) (PStr sandbox_id)
      then (Inl (not_found sandbox_id), sdk)
      else
        (case make_request env sdk ''GET''
                (''/api/sandboxes/'' @ sandbox_id @ ''/files?path='' @ path) PNone None of
           (Inl e, sdk) \<Rightarrow> (Inl e, sdk)
         | (Inr result, sdk) \<Rightarrow>
             (case py_get env result ''content'' (PStr []) of
                Inl e \<Rightarrow> (Inl e, sdk)
              | Inr content \<Rightarrow> (Inr content, sdk))))"

definition write_file ::
  "env \<Rightarrow> SandboxSDK \<Rightarrow> string \<Rightarrow> string \<Rightarrow> string \<Rightarrow> bool
     \<Rightarrow> (sdk_error + pyval) \<times> SandboxSDK" where
  "write_file env sdk sandbox_id path content create_parents =
     (if \<not> has_key (active_sandboxes sdk) (PStr sandbox_id)
      then (Inl (not_found sandbox_id), sdk)
      else
        (case make_request env sdk ''POST''
                (''/api/sandboxes/'' @ sandbox_id @ ''/files?path='' @ path)
                (PDict [(''content'', PStr content), (''createParents'', PBool create_parents)])
                None of
           (Inl e, sdk) \<Rightarrow> (Inl e, sdk)
         | (Inr result, sdk) \<Rightarrow>
             (case py_get env result ''path'' (PStr []) of
                Inl e \<Rightarrow> (Inl e, sdk)
              | Inr p \<Rightarrow> (Inr p, sdk))))"

definition delete_file ::
  "env \<Rightarrow> SandboxSDK \<Rightarrow> string \<Rightarrow> string \<Rightarrow> (sdk_error + unit) \<times> SandboxSDK" where
  "delete_file env sdk sandbox_id path =
     (if \<not> has_key (active_sandboxes sdk) (PStr sandbox_id)
      then (Inl (not_found sandbox_id), sdk)
      else
        (case make_request env sdk ''DELETE''
                (''/api/sandboxes/'' @ sandbox_id @ ''/files?path='' @ path) PNone None of
           (Inl e, sdk) \<Rightarrow> (Inl e, sdk)
         | (Inr result, sdk) \<Rightarrow> (Inr (), sdk)))"

definition list_files ::
  "env \<Rightarrow> SandboxSDK \<Rightarrow> string \<Rightarrow> string \<Rightarrow> (sdk_error + pyval) \<times> SandboxSDK" where
  "list_files env sdk sandbox_id dir_path =
     (if \<not> has_key (active_sandboxes sdk) (PStr sandbox_id)
      then (Inl (not_found sandbox_id), sdk)
      else make_request env sdk ''GET''
             (''/api/sandboxes/'' @ sandbox_id @ ''/files/list?path='' @ dir_path) PNone None)"

section \<open>Context management\<close>

text \<open>\<open>language or sandbox.get("template_config", {}).get("language")\<close>.\<close>

definition language_or_template ::
  "env \<Rightarrow> string option \<Rightarrow> pyval \<Rightarrow> sdk_error + pyval" where
  "language_or_template env language sandbox =
     (case language of
        None \<Rightarrow> template_language env sandbox
      | Some l \<Rightarrow> (if l \<noteq> [] then Inr (PStr l) else template_language env sandbox))"

text \<open>\<open>cwd or "/workspace"\<close>.\<close>

definition cwd_or_workspace :: "string option \<Rightarrow> string" where
  "cwd_or_workspace cwd =
     (case cwd of None \<Rightarrow> ''/workspace'' | Some c \<Rightarrow> (if c \<noteq> [] then c else ''/workspace''))"

definition create_code_context ::
  "env \<Rightarrow> SandboxSDK \<Rightarrow> string \<Rightarrow> string option \<Rightarrow> string option \<Rightarrow> int option
     \<Rightarrow> (sdk_error + pyval) \<times> SandboxSDK" where
  "create_code_context env sdk sandbox_id language cwd request_timeout_ms =
     (case map_of (active_sandboxes sdk) (PStr sandbox_id) of
        None \<Rightarrow> (Inl (not_found sandbox_id), sdk)
      | Some sandbox \<Rightarrow>
          (case language_or_template env language sandbox of
             Inl e \<Rightarrow> (Inl e, sdk)
           | Inr lang \<Rightarrow>
               (case make_request env sdk ''POST''
                       (''/api/sandboxes/'' @ sandbox_id @ ''/contexts'')
                       (PDict [(''language'', lang), (''cwd'', PStr (cwd_or_workspace cwd))])
                       request_timeout_ms of
                  (Inl e, sdk) \<Rightarrow> (Inl e, sdk)
                | (Inr context, sdk) \<Rightarrow>
                    (case py_getitem env context ''id'' of
                       Inl e \<Rightarrow> (Inl e, sdk)
                     | Inr cid \<Rightarrow>
                         (if hashable cid then
                            (Inr context,
                             sdk\<lparr> active_contexts :=
                                    dict_setitem cid context (active_contexts sdk) \<rparr>)
                          else (Inl (interp_error env ''TypeError''), sdk))))))"

definition delete_code_context ::
  "env \<Rightarrow> SandboxSDK \<Rightarrow> string \<Rightarrow> (sdk_error + unit) \<times> SandboxSDK" where
  "delete_code_context env sdk context_id =
     (case map_of (active_contexts sdk) (PStr context_id) of
        None \<Rightarrow> (Inr (), sdk)
      | Some context \<Rightarrow>
          (case py_get env context ''sandbox_id'' PNone of
             Inl e \<Rightarrow> (Inl e, sdk)
           | Inr sandbox_id \<Rightarrow>
               (let sdk = sdk\<lparr> active_contexts :=
                                 AList.delete (PStr context_id) (active_contexts sdk) \<rparr>
                in if truthy sandbox_id then
                     (case make_request env sdk ''DELETE''
                             (''/api/sandboxes/'' @ py_format env sandbox_id @ ''/contexts/''
                                @ context_id) PNone None of
                        (Inl e, sdk) \<Rightarrow> (Inl e, sdk)
                      | (Inr response, sdk) \<Rightarrow> (Inr (), sdk))
                   else (Inr (), sdk))))"

fun contexts_of :: "env \<Rightarrow> string \<Rightarrow> pyval list \<Rightarrow> sdk_error + pyval list" where
  "contexts_of env sandbox_id [] = Inr []"
| "contexts_of env sandbox_id (ctx # ctxs) =
     (case py_get env ctx ''sandbox_id'' PNone of
        Inl e \<Rightarrow> Inl e
      | Inr v \<Rightarrow>
          (case contexts_of env sandbox_id ctxs of
             Inl e \<Rightarrow> Inl e
           | Inr found \<Rightarrow> Inr (if v = PStr sandbox_id then ctx # found else found)))"

definition list_code_contexts :: "env \<Rightarrow> SandboxSDK \<Rightarrow> string \<Rightarrow> sdk_error + pyval list" where
  "list_code_contexts env sdk sandbox_id =
     contexts_of env sandbox_id (map snd (active_contexts sdk))"

section \<open>Batch operations\<close>

text \<open>
  A job gives \<open>job.get("id")\<close>, \<open>job.get("code")\<close> and \<open>job.get("timeout")\<close>, the last
  one \<open>None\<close> or an \<open>int\<close>. A record of the result list has \<open>job_id\<close>, \<open>success\<close> and
  \<open>duration\<close>, and \<open>execution\<close> or \<open>error\<close>.
\<close>

record BatchJob =
  job_id :: pyval
  job_code :: pyval
  job_timeout :: "int option"

record BatchRecord =
  br_job_id :: pyval
  br_success :: bool
  br_execution :: "Execution option"
  br_error :: "string option"
  br_duration :: real

text \<open>
  The body of the loop for one job: \<open>run_code\<close> with \<open>{**opts, "timeout_ms":
  job.get("timeout")}\<close>, and the record for its return or for the exception caught.
\<close>

definition run_job ::
  "env \<Rightarrow> SandboxSDK \<Rightarrow> string \<Rightarrow> run_opts \<Rightarrow> BatchJob \<Rightarrow> BatchRecord \<times> SandboxSDK" where
  "run_job env sdk sandbox_id opts job =
     (let start = time_now sdk
      in case run_code env sdk sandbox_id (job_code job)
                (opts\<lparr> opt_timeout_ms := job_timeout job \<rparr>) of
           (Inr execution, sdk) \<Rightarrow>
             (\<lparr> br_job_id = job_id job, br_success = True,
                br_execution = Some (er_execution execution), br_error = None,
                br_duration = (time_now sdk - start) * 1000 \<rparr>, sdk)
         | (Inl e, sdk) \<Rightarrow>
             (\<lparr> br_job_id = job_id job, br_success = False,
                br_execution = None, br_error = Some (str_of_error e),
                br_duration = (time_now sdk - start) * 1000 \<rparr>, sdk))"

fun run_jobs ::
  "env \<Rightarrow> SandboxSDK \<Rightarrow> string \<Rightarrow> run_opts \<Rightarrow> BatchJob list
     \<Rightarrow> BatchRecord list \<times> SandboxSDK" where
  "run_jobs env sdk sandbox_id opts [] = ([], sdk)"
| "run_jobs env sdk sandbox_id opts (job # jobs) =
     (case run_job env sdk sandbox_id opts job of
        (r, sdk) \<Rightarrow>
          (case run_jobs env sdk sandbox_id opts jobs of
             (rs, sdk) \<Rightarrow> (r # rs, sdk)))"

definition execute_batch ::
  "env \<Rightarrow> SandboxSDK \<Rightarrow> string \<Rightarrow> BatchJob list \<Rightarrow> run_opts
     \<Rightarrow> (sdk_error + BatchRecord list) \<times> SandboxSDK" where
  "execute_batch env sdk sandbox_id jobs opts =
     (if \<not> has_key (active_sandboxes sdk) (PStr sandbox_id)
      then (Inl (not_found sandbox_id), sdk)
      else (case run_jobs env sdk sandbox_id opts jobs of
              (rs, sdk) \<Rightarrow> (Inr rs, sdk)))"

section \<open>Metrics\<close>

definition get_metrics :: "SandboxSDK \<Rightarrow> MetricsData" where
  "get_metrics sdk = metrics_get_metrics (metrics_collector sdk) (time_now sdk)"

section \<open>Example states and environments\<close>

text \<open>
  An SDK object as the constructor makes it, with one sandbox in the cache and the
  clock at 100 s; the same object with 60 requests recorded half a second ago, so
  that the limiter is full; and a server that answers every request in half a second.
\<close>

definition demo_sandbox :: pyval where
  "demo_sandbox =
     PDict [(''id'', PStr ''sb1''),
            (''template_config'', PDict [(''language'', PStr ''python'')]),
            (''status'', PStr ''ready'')]"

definition demo_sdk :: SandboxSDK where
  "demo_sdk =
     \<lparr> config =
         \<lparr> api_key = ''key'', server_url = ''http://localhost'', timeout = 60000,
           max_retries = 3, retry_delay = 1000, enable_logging = False,
           log_level = ''info'', enable_metrics = False, metrics_interval = 30000 \<rparr>,
       active_sandboxes = [(PStr ''sb1'', demo_sandbox)],
       active_contexts = [],
       metrics_collector = MetricsCollector_init 100,
       rate_limiter = RateLimiter_init 60,
       time_now = 100,
       requests_sent = [] \<rparr>"

definition busy_sdk :: SandboxSDK where
  "busy_sdk =
     demo_sdk\<lparr> rate_limiter :=
       \<lparr> max_requests_per_minute = 60, request_timestamps = replicate 60 99500,
         concurrent_jobs = 0 \<rparr> \<rparr>"

definition demo_response :: pyval where
  "demo_response =
     PDict [(''content'', PStr ''hello''),
            (''results'', PList [PDict [(''text'', PStr ''2''),
                                        (''is_main_result'', PBool True)]])]"

definition demo_env :: env where
  "demo_env =
     \<lparr> transport = (\<lambda>n req. (Response demo_response, 1 / 2)),
       uuid4 = (\<lambda>n. ''00000000-0000-4000-8000-000000000000''),
       interp_msg = (\<lambda>cls. cls),
       interp_str = (\<lambda>v. ''?'') \<rparr>"

text \<open>The same server, but its second request (number 1) times out after 30 s.\<close>

definition flaky_env :: env where
  "flaky_env =
     demo_env\<lparr> transport :=
       (\<lambda>n req. if n = 1 then (Timeout, 30) else (Response demo_response, 1 / 2)) \<rparr>"

text \<open>Options whose \<open>on_result\<close> callback raises \<open>ValueError()\<close>, an exception with no message.\<close>

definition raising_opts :: run_opts where
  "raising_opts = no_opts\<lparr> on_result := Some (\<lambda>r. Some (PyException ''ValueError'' [])) \<rparr>"

definition three_jobs :: "BatchJob list" where
  "three_jobs =
     [\<lparr> job_id = PStr ''j1'', job_code = PStr ''1+1'', job_timeout = None \<rparr>,
      \<lparr> job_id = PStr ''j2'', job_code = PStr ''while True: pass'', job_timeout = Some 30000 \<rparr>,
      \<lparr> job_id = PStr ''j3'', job_code = PStr ''1+1'', job_timeout = None \<rparr>]"

section \<open>Evaluating the formatting of integers\<close>

lemma str_nat_digit: "n < 10 \<Longrightarrow> str_nat n = [digit_char n]"
  by (simp add: str_nat.simps)

lemma str_nat_more: "10 \<le> n \<Longrightarrow> str_nat n = str_nat (n div 10) @ [digit_char (n mod 10)]"
  by (subst str_nat.simps) simp

lemma str_int_30000: "str_int 30000 = ''30000''"
  by (simp add: str_int_def str_nat_digit str_nat_more digit_char_def)

section \<open>Properties of Result and Execution\<close>

lemma update_absent: "k \<notin> fst ` set al \<Longrightarrow> AList.update k v al = al @ [(k, v)]"
  by (induction al) auto

lemma collect_extra_distinct:
  "distinct (map fst items) \<Longrightarrow> fst ` set items \<inter> fst ` set extra = {} \<Longrightarrow>
   collect_extra items extra = extra @ filter (\<lambda>kv. fst kv \<notin> set reserved_keys) items"
proof (induction items arbitrary: extra)
  case Nil
  then show ?case by simp
next
  case (Cons kv items)
  obtain k v where kv: "kv = (k, v)" by (cases kv)
  show ?case
  proof (cases "k \<in> set reserved_keys")
    case True
    have "collect_extra items extra = extra @ filter (\<lambda>kv. fst kv \<notin> set reserved_keys) items"
      using Cons.prems by (intro Cons.IH) auto
    with True kv show ?thesis by simp
  next
    case False
    have absent: "k \<notin> fst ` set extra" using Cons.prems kv by auto
    have "collect_extra items (extra @ [(k, v)]) =
          (extra @ [(k, v)]) @ filter (\<lambda>kv. fst kv \<notin> set reserved_keys) items"
      using Cons.prems kv by (intro Cons.IH) auto
    with False kv absent show ?thesis by (simp add: update_absent)
  qed
qed

lemma extra_of_distinct:
  "distinct (map fst raw) \<Longrightarrow>
   r_extra (Result_init raw m) = filter (\<lambda>kv. fst kv \<notin> set reserved_keys) raw"
  using collect_extra_distinct [of raw "[]"] by (simp add: Result_init_def)

lemma append_if_alt: "append_if v n fs = fs @ (if truthy v then [n] else [])"
  by (simp add: append_if_def)

lemma filter_cons_alt: "filter P (x # xs) = (if P x then [x] else []) @ filter P xs"
  by simp

lemma formats_known:
  "formats (Result_init raw m) =
     filter (\<lambda>k. truthy (dict_get raw k PNone)) known_formats
     @ map fst (r_extra (Result_init raw m))"
  unfolding formats_def Let_def append_if_alt known_formats_def filter_cons_alt
  by (simp add: Result_init_def split del: if_split cong: if_cong)

lemma first_main_text_find:
  "first_main_text rs =
     (case find (\<lambda>r. truthy (r_is_main_result r) \<and> truthy (r_text r)) rs of
        None \<Rightarrow> PNone | Some r \<Rightarrow> r_text r)"
  by (induction rs) auto

text \<open>
  Claim C7. \<open>Execution.text\<close> is the text of the first result of the sequence whose
  \<open>is_main_result\<close> and \<open>text\<close> are both true (for a string: not empty), and \<open>None\<close>
  when there is none. For the three results \<open>{is_main_result: false, text: "a"}\<close>,
  \<open>{is_main_result: true, text: ""}\<close>, \<open>{is_main_result: true, text: "b"}\<close> it is \<open>"b"\<close>.
\<close>

theorem Execution_text_first_main:
  "Execution_text e =
     (case find (\<lambda>r. truthy (r_is_main_result r) \<and> truthy (r_text r)) (results e) of
        None \<Rightarrow> PNone
      | Some r \<Rightarrow> r_text r)
   \<and> Execution_text
       \<lparr> results =
           [Result_init [(''is_main_result'', PBool False), (''text'', PStr ''a'')] (PBool False),
            Result_init [(''is_main_result'', PBool True), (''text'', PStr '''')] (PBool True),
            Result_init [(''is_main_result'', PBool True), (''text'', PStr ''b'')] (PBool True)],
         logs = lg, error = err, execution_count = n \<rparr> = PStr ''b''"
  by (simp add: Execution_text_def first_main_text_find Result_init_def dict_get_def)

lemma only_text_known:
  assumes "truthy (dict_get raw ''text'' PNone)"
    and "\<forall>k \<in> set known_formats - {''text''}. \<not> truthy (dict_get raw k PNone)"
  shows "filter (\<lambda>k. truthy (dict_get raw k PNone)) known_formats = [''text'']"
  using assms by (simp add: known_formats_def)

lemma no_extra:
  "set (map fst raw) \<subseteq> set reserved_keys \<Longrightarrow> collect_extra raw extra = extra"
  by (induction raw arbitrary: extra) auto

lemma map_of_filter_keys:
  "k \<notin> set reserved_keys \<Longrightarrow>
   map_of (filter (\<lambda>kv. fst kv \<notin> set reserved_keys) raw) k = map_of raw k"
  by (induction raw) auto

text \<open>
  Claim C8. For a raw payload (a dict, so with distinct keys), \<open>formats()\<close> is the list
  of the recognised formats whose value is true (not empty), in the order text, html,
  markdown, svg, png, jpeg, pdf, latex, json, javascript, data, chart, followed by the
  keys of \<open>extra\<close> in insertion order, which are the keys of the payload outside the
  reserved set. A payload with only \<open>text\<close> set gives \<open>["text"]\<close>. A key \<open>foo\<close> of the
  payload is in \<open>extra\<close> with its value, and in \<open>formats()\<close> in the part after the
  known formats.
\<close>

theorem formats_order:
  assumes "distinct (map fst raw)"
  shows
   "formats (Result_init raw m) =
      filter (\<lambda>k. truthy (dict_get raw k PNone)) known_formats
      @ filter (\<lambda>k. k \<notin> set reserved_keys) (map fst raw)
    \<and> (truthy (dict_get raw ''text'' PNone)
         \<and> (\<forall>k \<in> set known_formats - {''text''}. \<not> truthy (dict_get raw k PNone))
         \<and> set (map fst raw) \<subseteq> set reserved_keys
        \<longrightarrow> formats (Result_init raw m) = [''text''])
    \<and> (map_of raw ''foo'' = Some v
        \<longrightarrow> map_of (r_extra (Result_init raw m)) ''foo'' = Some v
            \<and> ''foo'' \<in> set (filter (\<lambda>k. k \<notin> set reserved_keys) (map fst raw))
            \<and> ''foo'' \<notin> set known_formats)"
proof -
  have extra: "r_extra (Result_init raw m) = filter (\<lambda>kv. fst kv \<notin> set reserved_keys) raw"
    using assms by (rule extra_of_distinct)
  have keys: "map fst (filter (\<lambda>kv. fst kv \<notin> set reserved_keys) raw)
                = filter (\<lambda>k. k \<notin> set reserved_keys) (map fst raw)"
    by (simp add: filter_map comp_def)
  have main: "formats (Result_init raw m) =
      filter (\<lambda>k. truthy (dict_get raw k PNone)) known_formats
      @ filter (\<lambda>k. k \<notin> set reserved_keys) (map fst raw)"
    using formats_known [of raw m] extra keys by simp
  have only: "formats (Result_init raw m) = [''text'']"
    if "truthy (dict_get raw ''text'' PNone)"
      and "\<forall>k \<in> set known_formats - {''text''}. \<not> truthy (dict_get raw k PNone)"
      and "set (map fst raw) \<subseteq> set reserved_keys"
  proof -
    have "filter (\<lambda>k. k \<notin> set reserved_keys) (map fst raw) = []"
      using that(3) by (auto simp: filter_empty_conv)
    with main only_text_known [OF that(1) that(2)] show ?thesis by simp
  qed
  have foo_res: "''foo'' \<notin> set reserved_keys" by (simp add: reserved_keys_def)
  have foo: "map_of (r_extra (Result_init raw m)) ''foo'' = Some v
            \<and> ''foo'' \<in> set (filter (\<lambda>k. k \<notin> set reserved_keys) (map fst raw))
            \<and> ''foo'' \<notin> set known_formats"
    if "map_of raw ''foo'' = Some v"
  proof -
    have "(''foo'', v) \<in> set raw" using that by (rule map_of_SomeD)
    then have "''foo'' \<in> set (map fst raw)" by force
    then show ?thesis
      using that foo_res extra by (simp add: map_of_filter_keys known_formats_def)
  qed
  from main only foo show ?thesis by blast
qed

theorem formats_order_witness:
  "distinct (map fst [(''text'', PStr ''hi''), (''foo'', PInt 1)])
   \<and> formats (Result_init [(''text'', PStr ''hi''), (''foo'', PInt 1)] (PBool True))
       = [''text'', ''foo'']
   \<and> formats (Result_init [(''text'', PStr ''hi'')] (PBool True)) = [''text'']
   \<and> map_of (r_extra (Result_init [(''text'', PStr ''hi''), (''foo'', PInt 1)] (PBool True))) ''foo''
       = Some (PInt 1)"
proof -
  have d1: "distinct (map fst [(''text'', PStr ''hi''), (''foo'', PInt 1)])" by simp
  have d2: "distinct (map fst [(''text'', PStr ''hi'')])" by simp
  have a: "formats (Result_init [(''text'', PStr ''hi''), (''foo'', PInt 1)] (PBool True))
       = [''text'', ''foo'']"
    using formats_order [OF d1, of "PBool True" "PInt 1"]
    by (simp add: dict_get_def known_formats_def reserved_keys_def)
  have b: "formats (Result_init [(''text'', PStr ''hi'')] (PBool True)) = [''text'']"
    using formats_order [OF d2, of "PBool True" "PInt 1"]
    by (simp add: dict_get_def known_formats_def reserved_keys_def)
  have c: "map_of (r_extra (Result_init [(''text'', PStr ''hi''), (''foo'', PInt 1)] (PBool True))) ''foo''
       = Some (PInt 1)"
    using formats_order [OF d1, of "PBool True" "PInt 1"] by simp
  from d1 a b c show ?thesis by blast
qed

section \<open>Properties of MetricsCollector\<close>

lemma last_n_snoc:
  "last_n 1000 (s @ [x]) =
     (if length (last_n 1000 s @ [x]) > 1000 then tl (last_n 1000 s @ [x])
      else last_n 1000 s @ [x])"
proof (cases "length s < 1000")
  case True
  then show ?thesis by (simp add: last_n_def)
next
  case False
  then have len: "1000 \<le> length s" by simp
  then have ne: "drop (length s - 1000) s \<noteq> []" by simp
  have "length s - 999 = Suc (length s - 1000)" using len by simp
  then have "drop (length s - 999) s = tl (drop (length s - 1000) s)"
    by (simp add: drop_Suc tl_drop)
  with len ne show ?thesis by (simp add: last_n_def Suc_diff_le)
qed

lemma metrics_inv_step:
  "metrics_inv mc s \<Longrightarrow> metrics_inv (metrics_step mc c) (samples_step s c)"
proof (cases c)
  case (RecordRequest success t)
  assume inv: "metrics_inv mc s"
  let ?r = "last_n 1000 s @ [t]"
  let ?w = "if length ?r > 1000 then tl ?r else ?r"
  have w: "last_n 1000 (s @ [t]) = ?w" by (rule last_n_snoc)
  have wne: "?w \<noteq> []" by (cases "last_n 1000 s") auto
  have rt: "response_times (metrics_record_request mc success t) = ?w"
    using inv by (simp add: metrics_record_request_def update_average_response_time_def
        metrics_inv_def Let_def)
  have avg: "average_response_time (metrics (metrics_record_request mc success t)) = mean ?w"
    using inv wne by (simp add: metrics_record_request_def update_average_response_time_def
        metrics_inv_def Let_def mean_def)
  have cnt: "total_requests (metrics (metrics_record_request mc success t)) =
      successful_requests (metrics (metrics_record_request mc success t))
      + failed_requests (metrics (metrics_record_request mc success t))"
    using inv by (simp add: metrics_record_request_def update_average_response_time_def
        metrics_inv_def Let_def)
  show ?thesis
    unfolding RecordRequest metrics_step.simps samples_step.simps metrics_inv_def w
    using rt avg cnt wne by simp
next
  case (RecordExecution d)
  assume "metrics_inv mc s"
  then show ?thesis using RecordExecution by (simp add: metrics_inv_def record_execution_def)
next
  case (UpdateActiveSandboxes n)
  assume "metrics_inv mc s"
  then show ?thesis using UpdateActiveSandboxes
    by (simp add: metrics_inv_def update_active_sandboxes_def)
next
  case (Reset now)
  show ?thesis using Reset
    by (simp add: metrics_inv_def reset_def MetricsData_init_def last_n_def)
qed

lemma metrics_inv_run:
  "metrics_inv mc s \<Longrightarrow> metrics_inv (foldl metrics_step mc calls) (foldl samples_step s calls)"
  by (induction calls arbitrary: mc s) (simp_all add: metrics_inv_step)

lemma metrics_inv_init: "metrics_inv (MetricsCollector_init t0) []"
  by (simp add: metrics_inv_def MetricsCollector_init_def MetricsData_init_def last_n_def)

lemma samples_step_sub: "set (samples_step s c) \<subseteq> set s \<union> set (samples_ever [c])"
  by (cases c) auto

lemma samples_ever_append: "samples_ever (xs @ ys) = samples_ever xs @ samples_ever ys"
  by (induction xs rule: samples_ever.induct) auto

lemma samples_since_sub: "set (foldl samples_step [] calls) \<subseteq> set (samples_ever calls)"
proof (induction calls rule: rev_induct)
  case Nil
  then show ?case by simp
next
  case (snoc c calls)
  have "set (samples_step (foldl samples_step [] calls) c)
      \<subseteq> set (foldl samples_step [] calls) \<union> set (samples_ever [c])"
    by (rule samples_step_sub)
  with snoc show ?case by (auto simp: samples_ever_append)
qed

text \<open>
  Claim C6, amended. For every sequence of \<open>record_request\<close>, \<open>record_execution\<close>,
  \<open>update_active_sandboxes\<close> and \<open>reset\<close> calls on a new collector,
  \<open>total_requests = successful_requests + failed_requests\<close>; the buffer holds the last
  1000 response times recorded since the latest \<open>reset\<close> (or since construction), in
  order; \<open>average_response_time\<close> is their arithmetic mean, and 0 when there is none;
  so it is 0 when no sample was ever recorded.
\<close>

theorem metrics_invariant:
  "total_requests (metrics (metrics_run (MetricsCollector_init t0) calls)) =
     successful_requests (metrics (metrics_run (MetricsCollector_init t0) calls))
     + failed_requests (metrics (metrics_run (MetricsCollector_init t0) calls))
   \<and> response_times (metrics_run (MetricsCollector_init t0) calls) =
       last_n 1000 (samples_since_reset calls)
   \<and> average_response_time (metrics (metrics_run (MetricsCollector_init t0) calls)) =
       (if samples_since_reset calls = [] then 0
        else mean (last_n 1000 (samples_since_reset calls)))
   \<and> (samples_ever calls = [] \<longrightarrow>
        average_response_time (metrics (metrics_run (MetricsCollector_init t0) calls)) = 0)"
proof -
  have inv: "metrics_inv (metrics_run (MetricsCollector_init t0) calls) (samples_since_reset calls)"
    unfolding metrics_run_def samples_since_reset_def
    by (rule metrics_inv_run [OF metrics_inv_init])
  have e: "(last_n 1000 (samples_since_reset calls) = []) = (samples_since_reset calls = [])"
  proof -
    have "length (samples_since_reset calls) \<le> length (samples_since_reset calls) - 1000
        \<longleftrightarrow> length (samples_since_reset calls) = 0"
      by arith
    then show ?thesis by (simp add: last_n_def)
  qed
  have z: "samples_since_reset calls = []" if "samples_ever calls = []"
    using samples_since_sub [of calls] that by (simp add: samples_since_reset_def)
  from inv e z show ?thesis by (auto simp: metrics_inv_def)
qed

theorem metrics_invariant_witness:
  "samples_ever [RecordExecution 3, UpdateActiveSandboxes 2] = []
   \<and> average_response_time (metrics (metrics_run (MetricsCollector_init 0)
        [RecordExecution 3, UpdateActiveSandboxes 2])) = 0
   \<and> average_response_time (metrics (metrics_run (MetricsCollector_init 0)
        [RecordRequest True 4, Reset 1, RecordRequest False 10, RecordRequest True 20])) = 15"
proof -
  have a: "samples_ever [RecordExecution 3, UpdateActiveSandboxes 2] = []" by simp
  have b: "average_response_time (metrics (metrics_run (MetricsCollector_init 0)
        [RecordExecution 3, UpdateActiveSandboxes 2])) = 0"
    using metrics_invariant [of 0 "[RecordExecution 3, UpdateActiveSandboxes 2]"] a by blast
  have c: "average_response_time (metrics (metrics_run (MetricsCollector_init 0)
        [RecordRequest True 4, Reset 1, RecordRequest False 10, RecordRequest True 20])) = 15"
    using metrics_invariant [of 0 "[RecordRequest True 4, Reset 1, RecordRequest False 10, RecordRequest True 20]"]
    by (simp add: samples_since_reset_def last_n_def mean_def)
  from a b c show ?thesis by blast
qed

text \<open>
  After \<open>record_request(True, 5)\<close> and \<open>reset()\<close> a sample has been recorded, its mean is
  5, and the average is 0.
\<close>

theorem metrics_average_counterexample:
  "samples_ever [RecordRequest True 5, Reset 1] \<noteq> []
   \<and> average_response_time (metrics (metrics_run (MetricsCollector_init 0)
        [RecordRequest True 5, Reset 1]))
       \<noteq> mean (last_n 1000 (samples_ever [RecordRequest True 5, Reset 1]))"
  by (simp add: metrics_run_def reset_def MetricsData_init_def last_n_def mean_def)

section \<open>Properties of RateLimiter\<close>

lemma timestamps_record_requests_at:
  "request_timestamps (record_requests_at rl stamps) = request_timestamps rl @ stamps"
  unfolding record_requests_at_def
  by (induction stamps arbitrary: rl) (simp_all add: limiter_record_request_def)

lemma max_record_requests_at:
  "max_requests_per_minute (record_requests_at rl stamps) = max_requests_per_minute rl"
  unfolding record_requests_at_def
  by (induction stamps arbitrary: rl) (simp_all add: limiter_record_request_def)

lemma filter_all: "\<forall>x \<in> set xs. P x \<Longrightarrow> filter P xs = xs"
  by (induction xs) auto

text \<open>
  Claim C5, amended. \<open>can_make_request()\<close> keeps the timestamps less than 60000 ms old
  (it discards each one 60000 ms old or older) and returns true iff fewer than
  \<open>max_requests_per_minute\<close> remain. So after \<open>max_requests_per_minute\<close> requests
  recorded at times less than 60000 ms before now it returns false; and when the
  oldest timestamp, and only it, is 60000 ms old or older, the call removes exactly
  that one: one unit of capacity is free, and the call returns true iff the list held
  at most \<open>max_requests_per_minute\<close> timestamps.
\<close>

theorem can_make_request_window:
  "fst (can_make_request rl now) =
     (int (length (filter (\<lambda>ts. now - ts < 60000) (request_timestamps rl)))
        < max_requests_per_minute rl)
   \<and> request_timestamps (snd (can_make_request rl now)) =
       filter (\<lambda>ts. now - ts < 60000) (request_timestamps rl)
   \<and> (int (length stamps) = max_requests_per_minute rl \<and> (\<forall>t \<in> set stamps. now - t < 60000)
        \<longrightarrow> \<not> fst (can_make_request (record_requests_at rl stamps) now))
   \<and> (request_timestamps rl = oldest # rest \<and> 60000 \<le> now - oldest
        \<and> (\<forall>t \<in> set rest. now - t < 60000)
        \<longrightarrow> request_timestamps (snd (can_make_request rl now)) = rest
            \<and> length (request_timestamps (snd (can_make_request rl now)))
                = length (request_timestamps rl) - 1
            \<and> fst (can_make_request rl now)
                = (int (length (request_timestamps rl)) \<le> max_requests_per_minute rl))"
proof -
  have eq: "(\<lambda>ts. now - 60000 < ts) = (\<lambda>ts. now - ts < 60000)" by (rule ext) arith
  have a: "fst (can_make_request rl now) =
     (int (length (filter (\<lambda>ts. now - ts < 60000) (request_timestamps rl)))
        < max_requests_per_minute rl)" for rl
    by (simp add: can_make_request_def Let_def eq)
  have b: "request_timestamps (snd (can_make_request rl now)) =
       filter (\<lambda>ts. now - ts < 60000) (request_timestamps rl)"
    by (simp add: can_make_request_def Let_def eq)
  have c: "\<not> fst (can_make_request (record_requests_at rl stamps) now)"
    if "int (length stamps) = max_requests_per_minute rl" "\<forall>t \<in> set stamps. now - t < 60000"
  proof -
    have "filter (\<lambda>ts. now - ts < 60000) stamps = stamps" using that(2) by (rule filter_all)
    then have "length stamps \<le> length (filter (\<lambda>ts. now - ts < 60000)
                  (request_timestamps rl @ stamps))" by simp
    then show ?thesis
      using that(1)
      by (simp add: a timestamps_record_requests_at max_record_requests_at del: filter_append)
  qed
  have d: "request_timestamps (snd (can_make_request rl now)) = rest
            \<and> length (request_timestamps (snd (can_make_request rl now)))
                = length (request_timestamps rl) - 1
            \<and> fst (can_make_request rl now)
                = (int (length (request_timestamps rl)) \<le> max_requests_per_minute rl)"
    if "request_timestamps rl = oldest # rest" "60000 \<le> now - oldest"
       "\<forall>t \<in> set rest. now - t < 60000"
  proof -
    have "filter (\<lambda>ts. now - ts < 60000) rest = rest" using that(3) by (rule filter_all)
    then have "filter (\<lambda>ts. now - ts < 60000) (request_timestamps rl) = rest"
      using that(1) that(2) by simp
    then show ?thesis using that(1) by (auto simp: a b)
  qed
  from a b c d show ?thesis by blast
qed

theorem can_make_request_window_witness:
  "\<not> fst (can_make_request
        (record_requests_at \<lparr> max_requests_per_minute = 2, request_timestamps = [],
                              concurrent_jobs = 0 \<rparr> [1000, 2000]) 30000)
   \<and> fst (can_make_request \<lparr> max_requests_per_minute = 2, request_timestamps = [1000, 2000],
                             concurrent_jobs = 0 \<rparr> 61000)
   \<and> request_timestamps (snd (can_make_request
        \<lparr> max_requests_per_minute = 2, request_timestamps = [1000, 2000],
          concurrent_jobs = 0 \<rparr> 61000)) = [2000]"
  using can_make_request_window
    [of "\<lparr> max_requests_per_minute = 2, request_timestamps = [], concurrent_jobs = 0 \<rparr>"
        30000 "[1000, 2000]" 0 "[]"]
    can_make_request_window
    [of "\<lparr> max_requests_per_minute = 2, request_timestamps = [1000, 2000], concurrent_jobs = 0 \<rparr>"
        61000 "[]" 1000 "[2000]"]
  by simp

text \<open>
  With one slot and one timestamp exactly 60000 ms old, the timestamp is not older
  than 60000 ms, so one timestamp would remain and none be free; the call returns true.
\<close>

theorem can_make_request_boundary_counterexample:
  "fst (can_make_request \<lparr> max_requests_per_minute = 1, request_timestamps = [0],
                           concurrent_jobs = 0 \<rparr> 60000)
   \<and> \<not> older_than_minute 60000 0
   \<and> \<not> (int (length (filter (\<lambda>ts. \<not> older_than_minute 60000 ts) [0])) < 1)"
  by (simp add: can_make_request_def older_than_minute_def)

section \<open>Properties of the HTTP request helper\<close>

lemma make_request_unfold:
  "transport env (length (requests_sent sdk)) (request_args sdk method endpoint payload timeout_ms)
     = (outcome, seconds) \<Longrightarrow>
   make_request env sdk method endpoint payload timeout_ms =
     ((case outcome of
         Response data \<Rightarrow> Inr data
       | Timeout \<Rightarrow>
           Inl (TimeoutError (''Request timeout after '' @ str_opt_int timeout_ms @ ''ms''))
       | RequestException str_e response \<Rightarrow> Inl (SandboxError str_e)
       | OtherException cls str_e \<Rightarrow> Inl (PyException cls str_e)),
      sdk\<lparr> requests_sent :=
              requests_sent sdk @ [request_args sdk method endpoint payload timeout_ms],
            time_now := time_now sdk + seconds,
            metrics_collector :=
              (case outcome of
                 Response data \<Rightarrow>
                   metrics_record_request (metrics_collector sdk) True (seconds * 1000)
               | OtherException cls str_e \<Rightarrow> metrics_collector sdk
               | other \<Rightarrow>
                   metrics_record_request (metrics_collector sdk) False (seconds * 1000)) \<rparr>)"
  by (cases outcome)
     (simp_all add: make_request_def Let_def except_all_def split: raised.splits)

lemma make_request_frame:
  "active_sandboxes (snd (make_request env sdk m e p t)) = active_sandboxes sdk"
  "active_contexts (snd (make_request env sdk m e p t)) = active_contexts sdk"
  "rate_limiter (snd (make_request env sdk m e p t)) = rate_limiter sdk"
  "config (snd (make_request env sdk m e p t)) = config sdk"
  "requests_sent (snd (make_request env sdk m e p t)) = requests_sent sdk @ [request_args sdk m e p t]"
  by (cases "transport env (length (requests_sent sdk)) (request_args sdk m e p t)";
      simp add: make_request_unfold)+

text \<open>
  Claim C1 (the code differs). Whatever the failing response is, a failure other than a
  timeout records \<open>(False, elapsed_ms)\<close> and raises \<open>SandboxError(str(e))\<close>: the message
  of the server's body is never used. For a response with status 429 and the body
  \<open>{"message": "quota exceeded"}\<close> the \<open>try\<close> block raises \<open>SandboxError\<close> with
  \<open>quota exceeded\<close>, and the call raises \<open>SandboxError\<close> with \<open>str(e)\<close>.
\<close>

theorem make_request_failure_message:
  "fst (make_request (env\<lparr> transport := \<lambda>n req. (RequestException str_e response, seconds) \<rparr>)
          sdk method endpoint payload timeout_ms) = Inl (SandboxError str_e)
   \<and> metrics_collector
        (snd (make_request (env\<lparr> transport := \<lambda>n req. (RequestException str_e response, seconds) \<rparr>)
           sdk method endpoint payload timeout_ms))
       = metrics_record_request (metrics_collector sdk) False (seconds * 1000)
   \<and> try_error_data
        (Some \<lparr> status_code = 429,
                resp_json = Some (PDict [(''message'', PStr ''quota exceeded'')]) \<rparr>)
       = Raised_SandboxError (PStr ''quota exceeded'')
   \<and> fst (make_request
        (env\<lparr> transport := \<lambda>n req.
           (RequestException ''429 Client Error''
              (Some \<lparr> status_code = 429,
                      resp_json = Some (PDict [(''message'', PStr ''quota exceeded'')]) \<rparr>),
            seconds) \<rparr>)
        sdk method endpoint payload timeout_ms) = Inl (SandboxError ''429 Client Error'')"
  by (simp add: make_request_unfold try_error_data_def dict_get_def)

text \<open>
  Claim C4 (the code differs). A request that times out records \<open>(False, elapsed_ms)\<close>
  and raises \<open>TimeoutError\<close> with the text of the \<open>timeout_ms\<close> argument, not of the
  timeout in effect: with no override the message is \<open>Request timeout after Nonems\<close>,
  while the request ran with the configured timeout.
\<close>

theorem make_request_timeout_message:
  "fst (make_request (env\<lparr> transport := \<lambda>n req. (Timeout, seconds) \<rparr>)
          sdk method endpoint payload timeout_ms)
     = Inl (TimeoutError (''Request timeout after '' @ str_opt_int timeout_ms @ ''ms''))
   \<and> metrics_collector
        (snd (make_request (env\<lparr> transport := \<lambda>n req. (Timeout, seconds) \<rparr>)
           sdk method endpoint payload timeout_ms))
       = metrics_record_request (metrics_collector sdk) False (seconds * 1000)
   \<and> fst (make_request (env\<lparr> transport := \<lambda>n req. (Timeout, seconds) \<rparr>)
          sdk method endpoint payload None)
     = Inl (TimeoutError ''Request timeout after Nonems'')
   \<and> effective_timeout sdk None = timeout (config sdk)
   \<and> req_timeout (request_args sdk method endpoint payload None)
       = real_of_int (timeout (config sdk)) / 1000"
  by (simp add: make_request_unfold str_opt_int_def effective_timeout_def request_args_def)

section \<open>Properties of the facade\<close>

lemma check_rate_limit_admits:
  "fst (can_make_request (rate_limiter sdk) (time_now sdk * 1000)) \<Longrightarrow>
   check_rate_limit sdk =
     (Inr (), sdk\<lparr> rate_limiter :=
        limiter_record_request (snd (can_make_request (rate_limiter sdk) (time_now sdk * 1000)))
          (time_now sdk * 1000) \<rparr>)"
  by (simp add: check_rate_limit_def Let_def case_prod_beta)

lemma check_rate_limit_rejects:
  "\<not> fst (can_make_request (rate_limiter sdk) (time_now sdk * 1000)) \<Longrightarrow>
   check_rate_limit sdk =
     (Inl (RateLimitError
        (get_retry_after (snd (can_make_request (rate_limiter sdk) (time_now sdk * 1000)))
           (time_now sdk * 1000))),
      sdk\<lparr> rate_limiter := snd (can_make_request (rate_limiter sdk) (time_now sdk * 1000)) \<rparr>)"
  by (simp add: check_rate_limit_def Let_def case_prod_beta)

lemma absent_map_of: "\<not> has_key d k \<Longrightarrow> map_of d k = None"
  by (simp add: has_key_def map_of_eq_None_iff)

text \<open>
  Claim C10. When \<open>run_code\<close> or \<open>run_terminal\<close> is called with a sandbox id absent
  from the cache and the rate limiter admits the request, the call raises
  \<open>SandboxError\<close> (not found); the sandbox cache, the context cache, the metrics and the
  requests sent are unchanged, and the limiter holds its timestamps of the last minute
  followed by one new timestamp, the time of the call.
\<close>

theorem not_found_consumes_slot:
  assumes "\<not> has_key (active_sandboxes sdk) (PStr sandbox_id)"
    and "fst (can_make_request (rate_limiter sdk) (time_now sdk * 1000))"
  shows
   "run_code env sdk sandbox_id code opts =
      (Inl (SandboxError (''Sandbox '' @ sandbox_id @ '' not found'')),
       sdk\<lparr> rate_limiter := (rate_limiter sdk)\<lparr> request_timestamps :=
          filter (\<lambda>ts. ts > time_now sdk * 1000 - 60000) (request_timestamps (rate_limiter sdk))
          @ [time_now sdk * 1000] \<rparr> \<rparr>)
    \<and> run_terminal env sdk sandbox_id command opts =
      (Inl (SandboxError (''Sandbox '' @ sandbox_id @ '' not found'')),
       sdk\<lparr> rate_limiter := (rate_limiter sdk)\<lparr> request_timestamps :=
          filter (\<lambda>ts. ts > time_now sdk * 1000 - 60000) (request_timestamps (rate_limiter sdk))
          @ [time_now sdk * 1000] \<rparr> \<rparr>)
    \<and> active_sandboxes (snd (run_code env sdk sandbox_id code opts)) = active_sandboxes sdk
    \<and> active_contexts (snd (run_code env sdk sandbox_id code opts)) = active_contexts sdk
    \<and> metrics_collector (snd (run_code env sdk sandbox_id code opts)) = metrics_collector sdk
    \<and> requests_sent (snd (run_code env sdk sandbox_id code opts)) = requests_sent sdk"
proof -
  have rl: "limiter_record_request (snd (can_make_request (rate_limiter sdk) (time_now sdk * 1000)))
          (time_now sdk * 1000) =
        (rate_limiter sdk)\<lparr> request_timestamps :=
          filter (\<lambda>ts. ts > time_now sdk * 1000 - 60000) (request_timestamps (rate_limiter sdk))
          @ [time_now sdk * 1000] \<rparr>"
    by (simp add: limiter_record_request_def can_make_request_def Let_def)
  have a: "run_code env sdk sandbox_id code opts =
      (Inl (SandboxError (''Sandbox '' @ sandbox_id @ '' not found'')),
       sdk\<lparr> rate_limiter := (rate_limiter sdk)\<lparr> request_timestamps :=
          filter (\<lambda>ts. ts > time_now sdk * 1000 - 60000) (request_timestamps (rate_limiter sdk))
          @ [time_now sdk * 1000] \<rparr> \<rparr>)"
    using assms
    by (simp add: run_code_def check_rate_limit_admits absent_map_of not_found_def rl)
  have b: "run_terminal env sdk sandbox_id command opts =
      (Inl (SandboxError (''Sandbox '' @ sandbox_id @ '' not found'')),
       sdk\<lparr> rate_limiter := (rate_limiter sdk)\<lparr> request_timestamps :=
          filter (\<lambda>ts. ts > time_now sdk * 1000 - 60000) (request_timestamps (rate_limiter sdk))
          @ [time_now sdk * 1000] \<rparr> \<rparr>)"
    using assms
    by (simp add: run_terminal_def check_rate_limit_admits not_found_def rl)
  show ?thesis by (simp add: a b)
qed

lemma busy_rejects:
  "\<not> fst (can_make_request (rate_limiter busy_sdk) (time_now busy_sdk * 1000))"
  by (simp add: busy_sdk_def demo_sdk_def can_make_request_def)

lemma busy_retry_after:
  "get_retry_after (snd (can_make_request (rate_limiter busy_sdk) (time_now busy_sdk * 1000)))
     (time_now busy_sdk * 1000) = 59500"
proof -
  have r: "replicate 60 (99500::real) = 99500 # replicate 59 99500"
    by (simp add: eval_nat_numeral)
  show ?thesis
    by (simp add: busy_sdk_def demo_sdk_def can_make_request_def get_retry_after_def)
       (simp add: r py_int_def)
qed

text \<open>
  \<open>delete_sandbox\<close> does not test the cache before the network: unless its loop over the
  cached contexts raises, it gives \<open>requests.request\<close> one DELETE request for the id.
  \<open>delete_code_context\<close> with a context id that is not in the cache of contexts returns
  at once.
\<close>

lemma request_args_caches:
  "request_args (sdk\<lparr> active_contexts := c \<rparr>) m e p t = request_args sdk m e p t"
  "request_args (sdk\<lparr> active_sandboxes := s \<rparr>) m e p t = request_args sdk m e p t"
  by (simp_all add: request_args_def effective_timeout_def split: option.splits)

lemma delete_sandbox_requests:
  "requests_sent (snd (delete_sandbox env sdk sandbox_id)) =
     (if fst (delete_contexts_of env sandbox_id (map fst (active_contexts sdk))
                (active_contexts sdk)) = None
      then requests_sent sdk
             @ [request_args sdk ''DELETE'' (''/api/sandboxes/'' @ sandbox_id) PNone None]
      else requests_sent sdk)"
proof (cases "delete_contexts_of env sandbox_id (map fst (active_contexts sdk))
                (active_contexts sdk)")
  case (Pair raised contexts)
  show ?thesis
  proof (cases raised)
    case None
    with Pair show ?thesis
      by (simp add: delete_sandbox_def Let_def case_prod_beta make_request_frame
          request_args_caches split: sum.splits)
  next
    case (Some e)
    with Pair show ?thesis by (simp add: delete_sandbox_def)
  qed
qed

lemma delete_code_context_absent:
  "map_of (active_contexts sdk) (PStr context_id) = None \<Longrightarrow>
   delete_code_context env sdk context_id = (Inr (), sdk)"
  by (simp add: delete_code_context_def)

text \<open>
  Claim C2, amended. With a sandbox id absent from the cache, \<open>get_sandbox_status\<close>,
  \<open>read_file\<close>, \<open>write_file\<close>, \<open>delete_file\<close>, \<open>list_files\<close>, \<open>create_code_context\<close> and
  \<open>execute_batch\<close> raise \<open>SandboxError\<close> (not found) and leave the SDK object and the
  network as they were. \<open>run_code\<close> and \<open>run_terminal\<close> send no request either; they
  raise \<open>SandboxError\<close> (not found) when the rate limiter admits the call, and
  \<open>RateLimitError\<close> when it rejects it, because they consult the limiter first.
  \<open>delete_code_context\<close> with a context id absent from the cache of contexts sends no
  request and returns without an error, the SDK object as it was. \<open>delete_sandbox\<close>
  does not test the cache: unless its loop over the cached contexts raises, it sends
  exactly one request, the DELETE for the id.
\<close>

theorem unknown_sandbox_fails_locally:
  assumes "\<not> has_key (active_sandboxes sdk) (PStr sandbox_id)"
  shows
   "get_sandbox_status env sdk sandbox_id =
      (Inl (SandboxError (''Sandbox '' @ sandbox_id @ '' not found'')), sdk)
    \<and> read_file env sdk sandbox_id path =
      (Inl (SandboxError (''Sandbox '' @ sandbox_id @ '' not found'')), sdk)
    \<and> write_file env sdk sandbox_id path content create_parents =
      (Inl (SandboxError (''Sandbox '' @ sandbox_id @ '' not found'')), sdk)
    \<and> delete_file env sdk sandbox_id path =
      (Inl (SandboxError (''Sandbox '' @ sandbox_id @ '' not found'')), sdk)
    \<and> list_files env sdk sandbox_id path =
      (Inl (SandboxError (''Sandbox '' @ sandbox_id @ '' not found'')), sdk)
    \<and> create_code_context env sdk sandbox_id language cwd request_timeout_ms =
      (Inl (SandboxError (''Sandbox '' @ sandbox_id @ '' not found'')), sdk)
    \<and> execute_batch env sdk sandbox_id jobs opts =
      (Inl (SandboxError (''Sandbox '' @ sandbox_id @ '' not found'')), sdk)
    \<and> requests_sent (snd (run_code env sdk sandbox_id code opts)) = requests_sent sdk
    \<and> fst (run_code env sdk sandbox_id code opts) =
      (if fst (can_make_request (rate_limiter sdk) (time_now sdk * 1000))
       then Inl (SandboxError (''Sandbox '' @ sandbox_id @ '' not found''))
       else Inl (RateLimitError
              (get_retry_after (snd (can_make_request (rate_limiter sdk) (time_now sdk * 1000)))
                 (time_now sdk * 1000))))
    \<and> requests_sent (snd (run_terminal env sdk sandbox_id command opts)) = requests_sent sdk
    \<and> fst (run_terminal env sdk sandbox_id command opts) =
      (if fst (can_make_request (rate_limiter sdk) (time_now sdk * 1000))
       then Inl (SandboxError (''Sandbox '' @ sandbox_id @ '' not found''))
       else Inl (RateLimitError
              (get_retry_after (snd (can_make_request (rate_limiter sdk) (time_now sdk * 1000)))
                 (time_now sdk * 1000))))
    \<and> (map_of (active_contexts sdk) (PStr context_id) = None \<longrightarrow>
         delete_code_context env sdk context_id = (Inr (), sdk))
    \<and> requests_sent (snd (delete_sandbox env sdk sandbox_id)) =
      (if fst (delete_contexts_of env sandbox_id (map fst (active_contexts sdk))
                 (active_contexts sdk)) = None
       then requests_sent sdk
              @ [request_args sdk ''DELETE'' (''/api/sandboxes/'' @ sandbox_id) PNone None]
       else requests_sent sdk)"
proof -
  have none: "map_of (active_sandboxes sdk) (PStr sandbox_id) = None"
    using assms by (rule absent_map_of)
  have a: "get_sandbox_status env sdk sandbox_id =
      (Inl (SandboxError (''Sandbox '' @ sandbox_id @ '' not found'')), sdk)"
    using assms by (simp add: get_sandbox_status_def not_found_def)
  have b: "read_file env sdk sandbox_id path =
      (Inl (SandboxError (''Sandbox '' @ sandbox_id @ '' not found'')), sdk)"
    using assms by (simp add: read_file_def not_found_def)
  have c: "write_file env sdk sandbox_id path content create_parents =
      (Inl (SandboxError (''Sandbox '' @ sandbox_id @ '' not found'')), sdk)"
    using assms by (simp add: write_file_def not_found_def)
  have d: "delete_file env sdk sandbox_id path =
      (Inl (SandboxError (''Sandbox '' @ sandbox_id @ '' not found'')), sdk)"
    using assms by (simp add: delete_file_def not_found_def)
  have e: "list_files env sdk sandbox_id path =
      (Inl (SandboxError (''Sandbox '' @ sandbox_id @ '' not found'')), sdk)"
    using assms by (simp add: list_files_def not_found_def)
  have f: "create_code_context env sdk sandbox_id language cwd request_timeout_ms =
      (Inl (SandboxError (''Sandbox '' @ sandbox_id @ '' not found'')), sdk)"
    using none by (simp add: create_code_context_def not_found_def)
  have g: "execute_batch env sdk sandbox_id jobs opts =
      (Inl (SandboxError (''Sandbox '' @ sandbox_id @ '' not found'')), sdk)"
    using assms by (simp add: execute_batch_def not_found_def)
  have h: "requests_sent (snd (run_code env sdk sandbox_id code opts)) = requests_sent sdk
    \<and> fst (run_code env sdk sandbox_id code opts) =
      (if fst (can_make_request (rate_limiter sdk) (time_now sdk * 1000))
       then Inl (SandboxError (''Sandbox '' @ sandbox_id @ '' not found''))
       else Inl (RateLimitError
              (get_retry_after (snd (can_make_request (rate_limiter sdk) (time_now sdk * 1000)))
                 (time_now sdk * 1000))))"
  proof (cases "fst (can_make_request (rate_limiter sdk) (time_now sdk * 1000))")
    case True
    then show ?thesis
      using none by (simp add: run_code_def check_rate_limit_admits not_found_def)
  next
    case False
    then show ?thesis by (simp add: run_code_def check_rate_limit_rejects)
  qed
  have i: "requests_sent (snd (run_terminal env sdk sandbox_id command opts)) = requests_sent sdk
    \<and> fst (run_terminal env sdk sandbox_id command opts) =
      (if fst (can_make_request (rate_limiter sdk) (time_now sdk * 1000))
       then Inl (SandboxError (''Sandbox '' @ sandbox_id @ '' not found''))
       else Inl (RateLimitError
              (get_retry_after (snd (can_make_request (rate_limiter sdk) (time_now sdk * 1000)))
                 (time_now sdk * 1000))))"
  proof (cases "fst (can_make_request (rate_limiter sdk) (time_now sdk * 1000))")
    case True
    then show ?thesis
      using assms by (simp add: run_terminal_def check_rate_limit_admits not_found_def)
  next
    case False
    then show ?thesis by (simp add: run_terminal_def check_rate_limit_rejects)
  qed
  have j: "map_of (active_contexts sdk) (PStr context_id) = None \<longrightarrow>
         delete_code_context env sdk context_id = (Inr (), sdk)"
    by (simp add: delete_code_context_absent)
  note k = delete_sandbox_requests [of env sdk sandbox_id]
  from a b c d e f g h i j k show ?thesis by blast
qed

lemma ghost_absent: "\<not> has_key (active_sandboxes demo_sdk) (PStr ''ghost'')"
  by (simp add: demo_sdk_def has_key_def)

lemma ghost_absent_busy: "\<not> has_key (active_sandboxes busy_sdk) (PStr ''ghost'')"
  by (simp add: busy_sdk_def demo_sdk_def has_key_def)

theorem unknown_sandbox_fails_locally_witness:
  "\<not> has_key (active_sandboxes demo_sdk) (PStr ''ghost'')
   \<and> read_file demo_env demo_sdk ''ghost'' ''/a.txt'' =
       (Inl (SandboxError ''Sandbox ghost not found''), demo_sdk)
   \<and> fst (run_code demo_env demo_sdk ''ghost'' (PStr ''1+1'') no_opts) =
       Inl (SandboxError ''Sandbox ghost not found'')
   \<and> requests_sent (snd (run_code demo_env demo_sdk ''ghost'' (PStr ''1+1'') no_opts)) = []
   \<and> map_of (active_contexts demo_sdk) (PStr ''ctx9'') = None
   \<and> delete_code_context demo_env demo_sdk ''ctx9'' = (Inr (), demo_sdk)
   \<and> length (requests_sent (snd (delete_sandbox demo_env demo_sdk ''ghost''))) = 1"
proof -
  have adm: "fst (can_make_request (rate_limiter demo_sdk) (time_now demo_sdk * 1000))"
    by (simp add: demo_sdk_def can_make_request_def RateLimiter_init_def)
  have rs: "requests_sent demo_sdk = []" by (simp add: demo_sdk_def)
  have ctx: "active_contexts demo_sdk = []" by (simp add: demo_sdk_def)
  show ?thesis
    using unknown_sandbox_fails_locally [OF ghost_absent, of demo_env "''/a.txt''" "[]" True
        None None None "[]" no_opts "PStr ''1+1''" "[]" "''ctx9''"] adm rs ghost_absent ctx
    by simp
qed

text \<open>
  With the limiter full, \<open>run_code\<close> on an id that is not in the cache raises
  \<open>RateLimitError\<close>, not \<open>SandboxError\<close>; \<open>delete_sandbox\<close> on such an id sends its
  DELETE request and returns; and \<open>delete_code_context\<close> on a context id that is not in
  the cache returns without an error.
\<close>

theorem unknown_sandbox_counterexample:
  "\<not> has_key (active_sandboxes busy_sdk) (PStr ''ghost'')
   \<and> fst (run_code demo_env busy_sdk ''ghost'' (PStr ''1+1'') no_opts) = Inl (RateLimitError 59500)
   \<and> \<not> has_key (active_sandboxes demo_sdk) (PStr ''ghost'')
   \<and> fst (delete_sandbox demo_env demo_sdk ''ghost'') = Inr ()
   \<and> length (requests_sent (snd (delete_sandbox demo_env demo_sdk ''ghost''))) = 1
   \<and> \<not> has_key (active_contexts demo_sdk) (PStr ''ghost'')
   \<and> fst (delete_code_context demo_env demo_sdk ''ghost'') = Inr ()"
proof -
  have a: "fst (run_code demo_env busy_sdk ''ghost'' (PStr ''1+1'') no_opts)
             = Inl (RateLimitError 59500)"
    using busy_rejects busy_retry_after by (simp add: run_code_def check_rate_limit_rejects)
  have t: "transport demo_env n req = (Response demo_response, 1 / 2)" for n req
    by (simp add: demo_env_def)
  have b: "fst (delete_sandbox demo_env demo_sdk ''ghost'') = Inr ()
     \<and> length (requests_sent (snd (delete_sandbox demo_env demo_sdk ''ghost''))) = 1"
    using ghost_absent
    by (simp add: delete_sandbox_def demo_sdk_def make_request_unfold [OF t] Let_def)
  have c: "\<not> has_key (active_contexts demo_sdk) (PStr ''ghost'')
     \<and> fst (delete_code_context demo_env demo_sdk ''ghost'') = Inr ()"
    by (simp add: delete_code_context_def demo_sdk_def has_key_def)
  from a b c ghost_absent ghost_absent_busy show ?thesis by blast
qed

lemma make_request_limiter:
  "make_request env (sdk\<lparr> rate_limiter := rl \<rparr>) m e p t =
     (fst (make_request env sdk m e p t), (snd (make_request env sdk m e p t))\<lparr> rate_limiter := rl \<rparr>)"
proof -
  have r: "request_args (sdk\<lparr> rate_limiter := rl \<rparr>) m e p t = request_args sdk m e p t"
    by (simp add: request_args_def effective_timeout_def split: option.splits)
  obtain outcome seconds where
    t: "transport env (length (requests_sent sdk)) (request_args sdk m e p t) = (outcome, seconds)"
    by (cases "transport env (length (requests_sent sdk)) (request_args sdk m e p t)")
  have t': "transport env (length (requests_sent (sdk\<lparr> rate_limiter := rl \<rparr>)))
      (request_args (sdk\<lparr> rate_limiter := rl \<rparr>) m e p t) = (outcome, seconds)"
    using t r by simp
  show ?thesis
    by (cases outcome; simp add: make_request_unfold [OF t] make_request_unfold [OF t'] r)
qed

lemma get_sandbox_status_limiter:
  "get_sandbox_status env (sdk\<lparr> rate_limiter := rl \<rparr>) sid =
     (fst (get_sandbox_status env sdk sid),
      (snd (get_sandbox_status env sdk sid))\<lparr> rate_limiter := rl \<rparr>)"
  by (simp add: get_sandbox_status_def make_request_limiter make_request_frame case_prod_beta
      split: sum.splits option.splits pyval.splits)

lemma read_file_limiter:
  "read_file env (sdk\<lparr> rate_limiter := rl \<rparr>) sid path =
     (fst (read_file env sdk sid path), (snd (read_file env sdk sid path))\<lparr> rate_limiter := rl \<rparr>)"
  by (simp add: read_file_def make_request_limiter case_prod_beta split: sum.splits)

lemma write_file_limiter:
  "write_file env (sdk\<lparr> rate_limiter := rl \<rparr>) sid path c cp =
     (fst (write_file env sdk sid path c cp),
      (snd (write_file env sdk sid path c cp))\<lparr> rate_limiter := rl \<rparr>)"
  by (simp add: write_file_def make_request_limiter case_prod_beta split: sum.splits)

lemma delete_file_limiter:
  "delete_file env (sdk\<lparr> rate_limiter := rl \<rparr>) sid path =
     (fst (delete_file env sdk sid path),
      (snd (delete_file env sdk sid path))\<lparr> rate_limiter := rl \<rparr>)"
  by (simp add: delete_file_def make_request_limiter case_prod_beta split: sum.splits)

lemma list_files_limiter:
  "list_files env (sdk\<lparr> rate_limiter := rl \<rparr>) sid path =
     (fst (list_files env sdk sid path),
      (snd (list_files env sdk sid path))\<lparr> rate_limiter := rl \<rparr>)"
  by (simp add: list_files_def make_request_limiter)

lemma create_code_context_limiter:
  "create_code_context env (sdk\<lparr> rate_limiter := rl \<rparr>) sid l c t =
     (fst (create_code_context env sdk sid l c t),
      (snd (create_code_context env sdk sid l c t))\<lparr> rate_limiter := rl \<rparr>)"
  by (simp add: create_code_context_def make_request_limiter case_prod_beta
      split: sum.splits option.splits)

lemma delete_sandbox_limiter:
  "delete_sandbox env (sdk\<lparr> rate_limiter := rl \<rparr>) sid =
     (fst (delete_sandbox env sdk sid),
      (snd (delete_sandbox env sdk sid))\<lparr> rate_limiter := rl \<rparr>)"
proof -
  have sw1: "s\<lparr> rate_limiter := rl, active_contexts := c \<rparr>
           = s\<lparr> active_contexts := c, rate_limiter := rl \<rparr>" for s :: SandboxSDK and c
    by simp
  have sw2: "s\<lparr> rate_limiter := rl, active_sandboxes := c \<rparr>
           = s\<lparr> active_sandboxes := c, rate_limiter := rl \<rparr>" for s :: SandboxSDK and c
    by simp
  show ?thesis
    by (simp add: delete_sandbox_def Let_def sw1 sw2 make_request_limiter case_prod_beta
        del: SandboxSDK.update_convs
        split: sum.splits option.splits)
qed

lemma delete_code_context_limiter:
  "delete_code_context env (sdk\<lparr> rate_limiter := rl \<rparr>) cid =
     (fst (delete_code_context env sdk cid),
      (snd (delete_code_context env sdk cid))\<lparr> rate_limiter := rl \<rparr>)"
proof -
  have sw1: "s\<lparr> rate_limiter := rl, active_contexts := c \<rparr>
           = s\<lparr> active_contexts := c, rate_limiter := rl \<rparr>" for s :: SandboxSDK and c
    by simp
  show ?thesis
    by (simp add: delete_code_context_def Let_def sw1 make_request_limiter case_prod_beta
        split: sum.splits option.splits)
qed

lemma templates_limiter:
  "get_templates env (sdk\<lparr> rate_limiter := rl \<rparr>) page page_size =
     (fst (get_templates env sdk page page_size),
      (snd (get_templates env sdk page page_size))\<lparr> rate_limiter := rl \<rparr>)"
  "get_template env (sdk\<lparr> rate_limiter := rl \<rparr>) tid =
     (fst (get_template env sdk tid), (snd (get_template env sdk tid))\<lparr> rate_limiter := rl \<rparr>)"
  "create_template env (sdk\<lparr> rate_limiter := rl \<rparr>) template =
     (fst (create_template env sdk template),
      (snd (create_template env sdk template))\<lparr> rate_limiter := rl \<rparr>)"
  by (simp_all add: get_templates_def get_template_def create_template_def make_request_limiter)

text \<open>
  A rejected call leaves the limiter pruned, and a job whose \<open>run_code\<close> the limiter
  rejects gets a failure record with the message of the \<open>RateLimitError\<close>.
\<close>

lemma can_make_request_again:
  "can_make_request (snd (can_make_request rl now)) now = can_make_request rl now"
  by (simp add: can_make_request_def Let_def)

lemma run_job_rejected:
  assumes "\<not> fst (can_make_request (rate_limiter sdk) (time_now sdk * 1000))"
  shows "run_job env sdk sandbox_id opts job =
     (\<lparr> br_job_id = job_id job, br_success = False, br_execution = None,
        br_error = Some (str_of_error (RateLimitError
           (get_retry_after (snd (can_make_request (rate_limiter sdk) (time_now sdk * 1000)))
              (time_now sdk * 1000)))),
        br_duration = 0 \<rparr>,
      sdk\<lparr> rate_limiter := snd (can_make_request (rate_limiter sdk) (time_now sdk * 1000)) \<rparr>)"
  using assms by (simp add: run_job_def run_code_def check_rate_limit_rejects Let_def)

lemma execute_batch_rejected:
  assumes "has_key (active_sandboxes sdk) (PStr sandbox_id)"
    and "\<not> fst (can_make_request (rate_limiter sdk) (time_now sdk * 1000))"
  shows
   "(case fst (execute_batch env sdk sandbox_id (job # jobs) opts) of
       Inl e \<Rightarrow> False
     | Inr rs \<Rightarrow>
         br_job_id (hd rs) = job_id job \<and> \<not> br_success (hd rs)
         \<and> br_execution (hd rs) = None
         \<and> br_error (hd rs) = Some (str_of_error (RateLimitError
              (get_retry_after (snd (can_make_request (rate_limiter sdk) (time_now sdk * 1000)))
                 (time_now sdk * 1000))))
         \<and> tl rs = fst (run_jobs env
              (sdk\<lparr> rate_limiter :=
                      snd (can_make_request (rate_limiter sdk) (time_now sdk * 1000)) \<rparr>)
              sandbox_id opts jobs))
    \<and> requests_sent (snd (execute_batch env sdk sandbox_id [job] opts)) = requests_sent sdk"
  using assms
  by (simp add: execute_batch_def run_job_rejected case_prod_beta del: str_of_error.simps)

text \<open>
  Claim C3, amended. Only \<open>create_sandbox\<close>, \<open>run_code\<close> and \<open>run_terminal\<close> consult
  the rate limiter before the transport: when the limiter rejects, each of them raises
  \<open>RateLimitError\<close> and sends no request. \<open>execute_batch\<close> reaches the limiter only
  through \<open>run_code\<close>, after its own test of the cache, and does not raise
  \<open>RateLimitError\<close>: when the limiter rejects the call for the first job of a batch on
  a cached sandbox, the batch returns, the record of that job is a failure with the
  message of the \<open>RateLimitError\<close>, no request is sent for it, and the other records are
  those of the remaining jobs, run after it. \<open>get_sandbox_status\<close>, \<open>read_file\<close>,
  \<open>write_file\<close>, \<open>delete_file\<close>, \<open>list_files\<close>, \<open>create_code_context\<close>,
  \<open>delete_sandbox\<close>, \<open>delete_code_context\<close> and the template operations neither read
  nor change the limiter: with any other limiter in the SDK object they give the same
  result and the same state, but for that limiter.
\<close>

theorem limiter_gates_three_operations:
  "(\<not> fst (can_make_request (rate_limiter sdk) (time_now sdk * 1000)) \<longrightarrow>
      create_sandbox env sdk options =
        (Inl (RateLimitError
           (get_retry_after (snd (can_make_request (rate_limiter sdk) (time_now sdk * 1000)))
              (time_now sdk * 1000))),
         sdk\<lparr> rate_limiter := snd (can_make_request (rate_limiter sdk) (time_now sdk * 1000)) \<rparr>)
      \<and> run_code env sdk sandbox_id code opts =
        (Inl (RateLimitError
           (get_retry_after (snd (can_make_request (rate_limiter sdk) (time_now sdk * 1000)))
              (time_now sdk * 1000))),
         sdk\<lparr> rate_limiter := snd (can_make_request (rate_limiter sdk) (time_now sdk * 1000)) \<rparr>)
      \<and> run_terminal env sdk sandbox_id command opts =
        (Inl (RateLimitError
           (get_retry_after (snd (can_make_request (rate_limiter sdk) (time_now sdk * 1000)))
              (time_now sdk * 1000))),
         sdk\<lparr> rate_limiter := snd (can_make_request (rate_limiter sdk) (time_now sdk * 1000)) \<rparr>)
      \<and> requests_sent (snd (create_sandbox env sdk options)) = requests_sent sdk
      \<and> requests_sent (snd (run_code env sdk sandbox_id code opts)) = requests_sent sdk
      \<and> requests_sent (snd (run_terminal env sdk sandbox_id command opts)) = requests_sent sdk)
   \<and> (has_key (active_sandboxes sdk) (PStr sandbox_id)
       \<and> \<not> fst (can_make_request (rate_limiter sdk) (time_now sdk * 1000)) \<longrightarrow>
      (case fst (execute_batch env sdk sandbox_id (job # jobs) opts) of
         Inl e \<Rightarrow> False
       | Inr rs \<Rightarrow>
           br_job_id (hd rs) = job_id job \<and> \<not> br_success (hd rs)
           \<and> br_execution (hd rs) = None
           \<and> br_error (hd rs) = Some (str_of_error (RateLimitError
                (get_retry_after
                   (snd (can_make_request (rate_limiter sdk) (time_now sdk * 1000)))
                   (time_now sdk * 1000))))
           \<and> tl rs = fst (run_jobs env
                (sdk\<lparr> rate_limiter :=
                        snd (can_make_request (rate_limiter sdk) (time_now sdk * 1000)) \<rparr>)
                sandbox_id opts jobs))
      \<and> requests_sent (snd (execute_batch env sdk sandbox_id [job] opts)) = requests_sent sdk)
   \<and> get_sandbox_status env (sdk\<lparr> rate_limiter := rl \<rparr>) sandbox_id =
       (fst (get_sandbox_status env sdk sandbox_id),
        (snd (get_sandbox_status env sdk sandbox_id))\<lparr> rate_limiter := rl \<rparr>)
   \<and> read_file env (sdk\<lparr> rate_limiter := rl \<rparr>) sandbox_id path =
       (fst (read_file env sdk sandbox_id path),
        (snd (read_file env sdk sandbox_id path))\<lparr> rate_limiter := rl \<rparr>)
   \<and> write_file env (sdk\<lparr> rate_limiter := rl \<rparr>) sandbox_id path content create_parents =
       (fst (write_file env sdk sandbox_id path content create_parents),
        (snd (write_file env sdk sandbox_id path content create_parents))\<lparr> rate_limiter := rl \<rparr>)
   \<and> delete_file env (sdk\<lparr> rate_limiter := rl \<rparr>) sandbox_id path =
       (fst (delete_file env sdk sandbox_id path),
        (snd (delete_file env sdk sandbox_id path))\<lparr> rate_limiter := rl \<rparr>)
   \<and> list_files env (sdk\<lparr> rate_limiter := rl \<rparr>) sandbox_id path =
       (fst (list_files env sdk sandbox_id path),
        (snd (list_files env sdk sandbox_id path))\<lparr> rate_limiter := rl \<rparr>)
   \<and> create_code_context env (sdk\<lparr> rate_limiter := rl \<rparr>) sandbox_id language cwd request_timeout_ms =
       (fst (create_code_context env sdk sandbox_id language cwd request_timeout_ms),
        (snd (create_code_context env sdk sandbox_id language cwd request_timeout_ms))
          \<lparr> rate_limiter := rl \<rparr>)
   \<and> delete_sandbox env (sdk\<lparr> rate_limiter := rl \<rparr>) sandbox_id =
       (fst (delete_sandbox env sdk sandbox_id),
        (snd (delete_sandbox env sdk sandbox_id))\<lparr> rate_limiter := rl \<rparr>)
   \<and> delete_code_context env (sdk\<lparr> rate_limiter := rl \<rparr>) context_id =
       (fst (delete_code_context env sdk context_id),
        (snd (delete_code_context env sdk context_id))\<lparr> rate_limiter := rl \<rparr>)
   \<and> get_templates env (sdk\<lparr> rate_limiter := rl \<rparr>) page page_size =
       (fst (get_templates env sdk page page_size),
        (snd (get_templates env sdk page page_size))\<lparr> rate_limiter := rl \<rparr>)
   \<and> get_template env (sdk\<lparr> rate_limiter := rl \<rparr>) template_id =
       (fst (get_template env sdk template_id),
        (snd (get_template env sdk template_id))\<lparr> rate_limiter := rl \<rparr>)
   \<and> create_template env (sdk\<lparr> rate_limiter := rl \<rparr>) template =
       (fst (create_template env sdk template),
        (snd (create_template env sdk template))\<lparr> rate_limiter := rl \<rparr>)"
proof -
  have gated:
    "create_sandbox env sdk options =
        (Inl (RateLimitError
           (get_retry_after (snd (can_make_request (rate_limiter sdk) (time_now sdk * 1000)))
              (time_now sdk * 1000))),
         sdk\<lparr> rate_limiter := snd (can_make_request (rate_limiter sdk) (time_now sdk * 1000)) \<rparr>)
      \<and> run_code env sdk sandbox_id code opts =
        (Inl (RateLimitError
           (get_retry_after (snd (can_make_request (rate_limiter sdk) (time_now sdk * 1000)))
              (time_now sdk * 1000))),
         sdk\<lparr> rate_limiter := snd (can_make_request (rate_limiter sdk) (time_now sdk * 1000)) \<rparr>)
      \<and> run_terminal env sdk sandbox_id command opts =
        (Inl (RateLimitError
           (get_retry_after (snd (can_make_request (rate_limiter sdk) (time_now sdk * 1000)))
              (time_now sdk * 1000))),
         sdk\<lparr> rate_limiter := snd (can_make_request (rate_limiter sdk) (time_now sdk * 1000)) \<rparr>)
      \<and> requests_sent (snd (create_sandbox env sdk options)) = requests_sent sdk
      \<and> requests_sent (snd (run_code env sdk sandbox_id code opts)) = requests_sent sdk
      \<and> requests_sent (snd (run_terminal env sdk sandbox_id command opts)) = requests_sent sdk"
    if "\<not> fst (can_make_request (rate_limiter sdk) (time_now sdk * 1000))"
    using that
    by (simp add: create_sandbox_def run_code_def run_terminal_def check_rate_limit_rejects)
  note batch = execute_batch_rejected
    [where sdk = sdk and sandbox_id = sandbox_id and env = env and job = job and jobs = jobs
       and opts = opts]
  show ?thesis
    using gated batch
    by (simp only: get_sandbox_status_limiter read_file_limiter write_file_limiter
        delete_file_limiter list_files_limiter create_code_context_limiter
        delete_sandbox_limiter delete_code_context_limiter templates_limiter simp_thms)
       blast
qed

theorem limiter_gates_three_operations_witness:
  "\<not> fst (can_make_request (rate_limiter busy_sdk) (time_now busy_sdk * 1000))
   \<and> fst (create_sandbox demo_env busy_sdk (PDict [(''template_id'', PStr ''python-3.11'')]))
       = Inl (RateLimitError 59500)
   \<and> fst (run_code demo_env busy_sdk ''sb1'' (PStr ''1+1'') no_opts) = Inl (RateLimitError 59500)
   \<and> fst (run_terminal demo_env busy_sdk ''sb1'' ''ls'' no_opts) = Inl (RateLimitError 59500)
   \<and> requests_sent (snd (run_code demo_env busy_sdk ''sb1'' (PStr ''1+1'') no_opts)) = []
   \<and> has_key (active_sandboxes busy_sdk) (PStr ''sb1'')
   \<and> fst (execute_batch demo_env busy_sdk ''sb1''
            [\<lparr> job_id = PStr ''j1'', job_code = PStr ''1+1'', job_timeout = None \<rparr>] no_opts) =
       Inr (fst (run_jobs demo_env busy_sdk ''sb1'' no_opts
                   [\<lparr> job_id = PStr ''j1'', job_code = PStr ''1+1'', job_timeout = None \<rparr>]))
   \<and> map br_success
         (fst (run_jobs demo_env busy_sdk ''sb1'' no_opts
                 [\<lparr> job_id = PStr ''j1'', job_code = PStr ''1+1'', job_timeout = None \<rparr>]))
       = [False]
   \<and> map br_error
         (fst (run_jobs demo_env busy_sdk ''sb1'' no_opts
                 [\<lparr> job_id = PStr ''j1'', job_code = PStr ''1+1'', job_timeout = None \<rparr>]))
       = [Some ''Rate limit exceeded. Retry after 59500ms'']
   \<and> requests_sent (snd (execute_batch demo_env busy_sdk ''sb1''
            [\<lparr> job_id = PStr ''j1'', job_code = PStr ''1+1'', job_timeout = None \<rparr>] no_opts)) = []"
proof -
  have rs: "requests_sent busy_sdk = []" by (simp add: busy_sdk_def demo_sdk_def)
  have c: "has_key (active_sandboxes busy_sdk) (PStr ''sb1'')"
    by (simp add: busy_sdk_def demo_sdk_def has_key_def)
  have s: "str_int 59500 = ''59500''"
    by (simp add: str_int_def str_nat_digit str_nat_more digit_char_def)
  have b: "fst (execute_batch demo_env busy_sdk ''sb1''
            [\<lparr> job_id = PStr ''j1'', job_code = PStr ''1+1'', job_timeout = None \<rparr>] no_opts) =
       Inr (fst (run_jobs demo_env busy_sdk ''sb1'' no_opts
                   [\<lparr> job_id = PStr ''j1'', job_code = PStr ''1+1'', job_timeout = None \<rparr>]))"
    using c by (simp add: execute_batch_def case_prod_beta)
  have r: "fst (run_jobs demo_env busy_sdk ''sb1'' no_opts
                   [\<lparr> job_id = PStr ''j1'', job_code = PStr ''1+1'', job_timeout = None \<rparr>]) =
       [\<lparr> br_job_id = PStr ''j1'', br_success = False, br_execution = None,
          br_error = Some ''Rate limit exceeded. Retry after 59500ms'',
          br_duration = 0 \<rparr>]"
    using busy_rejects busy_retry_after by (simp add: run_job_rejected s)
  show ?thesis
    using limiter_gates_three_operations
      [of busy_sdk demo_env "PDict [(''template_id'', PStr ''python-3.11'')]" "''sb1''"
          "PStr ''1+1''" no_opts "''ls''"
          "\<lparr> job_id = PStr ''j1'', job_code = PStr ''1+1'', job_timeout = None \<rparr>" "[]"]
      busy_rejects busy_retry_after rs c b r
    by simp
qed

text \<open>
  With the limiter full, \<open>read_file\<close> on a cached sandbox sends its request and returns
  the content; the limiter is as before.
\<close>

theorem read_file_ignores_limiter_counterexample:
  "\<not> fst (can_make_request (rate_limiter busy_sdk) (time_now busy_sdk * 1000))
   \<and> fst (read_file demo_env busy_sdk ''sb1'' ''/a.txt'') = Inr (PStr ''hello'')
   \<and> length (requests_sent (snd (read_file demo_env busy_sdk ''sb1'' ''/a.txt''))) = 1
   \<and> rate_limiter (snd (read_file demo_env busy_sdk ''sb1'' ''/a.txt'')) = rate_limiter busy_sdk"
proof -
  have t: "transport demo_env n req = (Response demo_response, 1 / 2)" for n req
    by (simp add: demo_env_def)
  have "fst (read_file demo_env busy_sdk ''sb1'' ''/a.txt'') = Inr (PStr ''hello'')
   \<and> length (requests_sent (snd (read_file demo_env busy_sdk ''sb1'' ''/a.txt''))) = 1
   \<and> rate_limiter (snd (read_file demo_env busy_sdk ''sb1'' ''/a.txt'')) = rate_limiter busy_sdk"
    by (simp add: read_file_def busy_sdk_def demo_sdk_def has_key_def make_request_unfold [OF t]
        demo_response_def dict_get_def)
  with busy_rejects show ?thesis by blast
qed

text \<open>The witness of claim C10: the example object and an id that is not in its cache.\<close>

theorem not_found_consumes_slot_witness:
  "\<not> has_key (active_sandboxes demo_sdk) (PStr ''ghost'')
   \<and> fst (can_make_request (rate_limiter demo_sdk) (time_now demo_sdk * 1000))
   \<and> run_code demo_env demo_sdk ''ghost'' (PStr ''1+1'') no_opts =
       (Inl (SandboxError ''Sandbox ghost not found''),
        demo_sdk\<lparr> rate_limiter := (rate_limiter demo_sdk)\<lparr> request_timestamps := [100000] \<rparr> \<rparr>)
   \<and> run_terminal demo_env demo_sdk ''ghost'' ''ls'' no_opts =
       (Inl (SandboxError ''Sandbox ghost not found''),
        demo_sdk\<lparr> rate_limiter := (rate_limiter demo_sdk)\<lparr> request_timestamps := [100000] \<rparr> \<rparr>)"
proof -
  have adm: "fst (can_make_request (rate_limiter demo_sdk) (time_now demo_sdk * 1000))"
    by (simp add: demo_sdk_def can_make_request_def RateLimiter_init_def)
  have ts: "request_timestamps (rate_limiter demo_sdk) = []" "time_now demo_sdk = 100"
    by (simp_all add: demo_sdk_def RateLimiter_init_def)
  show ?thesis
    using not_found_consumes_slot [OF ghost_absent adm, of demo_env "PStr ''1+1''" no_opts "''ls''"]
      ghost_absent adm ts
    by simp
qed


section \<open>Batch execution\<close>

text \<open>
  The example response decodes to an execution with one main result and no error, and
  without callbacks nothing is raised after decoding.
\<close>

lemma demo_decode:
  "decode_execution env demo_response =
     Inr \<lparr> results = [Result_init [(''text'', PStr ''2''), (''is_main_result'', PBool True)] (PBool True)],
           logs = \<lparr> stdout = PList [], stderr = PList [] \<rparr>,
           error = None, execution_count = PNone \<rparr>"
  by (simp add: decode_execution_def decode_logs_def decode_results_def decode_error_def
      demo_response_def dict_get_def)

lemma no_callbacks: "handle_callbacks env (no_opts\<lparr> opt_timeout_ms := t \<rparr>) execution now = None"
  by (simp add: handle_callbacks_def no_opts_def call_lines_def first_raised_def)

lemma three_jobs_flags:
  "map br_success (fst (run_jobs flaky_env demo_sdk ''sb1'' no_opts three_jobs)) = [True, False, True]
   \<and> map br_error (fst (run_jobs flaky_env demo_sdk ''sb1'' no_opts three_jobs))
       = [None, Some ''Request timeout after 30000ms'', None]"
  by (simp add: three_jobs_def run_job_def run_code_def check_rate_limit_def can_make_request_def
      limiter_record_request_def demo_sdk_def RateLimiter_init_def template_language_def
      demo_sandbox_def dict_get_def make_request_def request_args_def effective_timeout_def
      flaky_env_def demo_env_def demo_decode no_callbacks Let_def str_opt_int_def str_int_def
      str_nat_digit str_nat_more digit_char_def)

text \<open>
  The loop of \<open>execute_batch\<close>: one record per job, the record of job \<open>i\<close> made in the
  state left by the first \<open>i\<close> jobs.
\<close>

lemma run_jobs_length: "length (fst (run_jobs env sdk sandbox_id opts jobs)) = length jobs"
  by (induction jobs arbitrary: sdk) (simp_all add: case_prod_beta)

lemma run_jobs_nth:
  "i < length jobs \<Longrightarrow>
   fst (run_jobs env sdk sandbox_id opts jobs) ! i =
     fst (run_job env (snd (run_jobs env sdk sandbox_id opts (take i jobs))) sandbox_id opts
            (jobs ! i))"
proof (induction jobs arbitrary: sdk i)
  case Nil
  then show ?case by simp
next
  case (Cons job jobs)
  show ?case
  proof (cases i)
    case 0
    then show ?thesis by (simp add: case_prod_beta)
  next
    case (Suc k)
    with Cons.prems have "k < length jobs" by simp
    from Cons.IH [OF this] Suc show ?thesis by (simp add: case_prod_beta)
  qed
qed

lemma run_job_record:
  "fst (run_job env sdk sandbox_id opts job) =
     (case fst (run_code env sdk sandbox_id (job_code job)
                  (opts\<lparr> opt_timeout_ms := job_timeout job \<rparr>)) of
        Inl e \<Rightarrow>
          \<lparr> br_job_id = job_id job, br_success = False, br_execution = None,
            br_error = Some (str_of_error e),
            br_duration =
              (time_now (snd (run_code env sdk sandbox_id (job_code job)
                                (opts\<lparr> opt_timeout_ms := job_timeout job \<rparr>)))
               - time_now sdk) * 1000 \<rparr>
      | Inr r \<Rightarrow>
          \<lparr> br_job_id = job_id job, br_success = True,
            br_execution = Some (er_execution r), br_error = None,
            br_duration =
              (time_now (snd (run_code env sdk sandbox_id (job_code job)
                                (opts\<lparr> opt_timeout_ms := job_timeout job \<rparr>)))
               - time_now sdk) * 1000 \<rparr>)"
  by (simp add: run_job_def Let_def case_prod_beta split: sum.splits prod.splits)

text \<open>
  Claim C9, amended. For a sandbox that is in the cache, \<open>execute_batch\<close> returns the list
  that the loop builds: one record per job, in the order of the jobs. The record of job
  \<open>i\<close> is determined by the call of \<open>run_code\<close> for that job in the state left by the
  jobs before it: when the call raises \<open>e\<close> the record has \<open>success = False\<close>, no
  execution and the error \<open>str(e)\<close>, and the loop goes on; when the call returns, the
  record has \<open>success = True\<close>, the execution and no error. The duration is the time the
  call took, in milliseconds. \<open>str(e)\<close> is not empty for the errors that the SDK raises
  itself: a rate limit error, a request timeout and a sandbox that is not found.
\<close>

theorem execute_batch_records:
  assumes "has_key (active_sandboxes sdk) (PStr sandbox_id)"
  shows
   "fst (execute_batch env sdk sandbox_id jobs opts)
      = Inr (fst (run_jobs env sdk sandbox_id opts jobs))
    \<and> length (fst (run_jobs env sdk sandbox_id opts jobs)) = length jobs
    \<and> (\<forall>i < length jobs.
          fst (run_jobs env sdk sandbox_id opts jobs) ! i =
            (case fst (run_code env (snd (run_jobs env sdk sandbox_id opts (take i jobs)))
                         sandbox_id (job_code (jobs ! i))
                         (opts\<lparr> opt_timeout_ms := job_timeout (jobs ! i) \<rparr>)) of
               Inl e \<Rightarrow>
                 \<lparr> br_job_id = job_id (jobs ! i), br_success = False, br_execution = None,
                   br_error = Some (str_of_error e),
                   br_duration =
                     (time_now (snd (run_jobs env sdk sandbox_id opts (take (Suc i) jobs)))
                      - time_now (snd (run_jobs env sdk sandbox_id opts (take i jobs)))) * 1000 \<rparr>
             | Inr r \<Rightarrow>
                 \<lparr> br_job_id = job_id (jobs ! i), br_success = True,
                   br_execution = Some (er_execution r), br_error = None,
                   br_duration =
                     (time_now (snd (run_jobs env sdk sandbox_id opts (take (Suc i) jobs)))
                      - time_now (snd (run_jobs env sdk sandbox_id opts (take i jobs)))) * 1000 \<rparr>))
    \<and> str_of_error (RateLimitError retry_after) \<noteq> []
    \<and> str_of_error (TimeoutError (''Request timeout after '' @ str_opt_int t @ ''ms'')) \<noteq> []
    \<and> str_of_error (not_found sandbox_id) \<noteq> []"
proof -
  have a: "fst (execute_batch env sdk sandbox_id jobs opts)
      = Inr (fst (run_jobs env sdk sandbox_id opts jobs))"
    using assms by (simp add: execute_batch_def case_prod_beta)
  have snoc: "snd (run_jobs env s sandbox_id opts (js @ [j])) =
      snd (run_job env (snd (run_jobs env s sandbox_id opts js)) sandbox_id opts j)" for s js j
    by (induction js arbitrary: s) (simp_all add: case_prod_beta)
  have step: "snd (run_jobs env sdk sandbox_id opts (take (Suc i) jobs)) =
      snd (run_code env (snd (run_jobs env sdk sandbox_id opts (take i jobs))) sandbox_id
             (job_code (jobs ! i)) (opts\<lparr> opt_timeout_ms := job_timeout (jobs ! i) \<rparr>))"
    if "i < length jobs" for i
    using that
    by (simp add: take_Suc_conv_app_nth snoc run_job_def Let_def case_prod_beta
        split: sum.splits)
  have b: "fst (run_jobs env sdk sandbox_id opts jobs) ! i =
            (case fst (run_code env (snd (run_jobs env sdk sandbox_id opts (take i jobs)))
                         sandbox_id (job_code (jobs ! i))
                         (opts\<lparr> opt_timeout_ms := job_timeout (jobs ! i) \<rparr>)) of
               Inl e \<Rightarrow>
                 \<lparr> br_job_id = job_id (jobs ! i), br_success = False, br_execution = None,
                   br_error = Some (str_of_error e),
                   br_duration =
                     (time_now (snd (run_jobs env sdk sandbox_id opts (take (Suc i) jobs)))
                      - time_now (snd (run_jobs env sdk sandbox_id opts (take i jobs)))) * 1000 \<rparr>
             | Inr r \<Rightarrow>
                 \<lparr> br_job_id = job_id (jobs ! i), br_success = True,
                   br_execution = Some (er_execution r), br_error = None,
                   br_duration =
                     (time_now (snd (run_jobs env sdk sandbox_id opts (take (Suc i) jobs)))
                      - time_now (snd (run_jobs env sdk sandbox_id opts (take i jobs)))) * 1000 \<rparr>)"
    if "i < length jobs" for i
    using that by (simp add: run_jobs_nth run_job_record step split: sum.splits)
  have c: "str_of_error (RateLimitError retry_after) \<noteq> []
    \<and> str_of_error (TimeoutError (''Request timeout after '' @ str_opt_int t @ ''ms'')) \<noteq> []
    \<and> str_of_error (not_found sandbox_id) \<noteq> []"
    by (simp add: not_found_def)
  from a b c run_jobs_length [of env sdk sandbox_id opts jobs] show ?thesis by blast
qed

text \<open>The example object has the sandbox \<open>sb1\<close> in its cache.\<close>

lemma sb1_cached: "has_key (active_sandboxes demo_sdk) (PStr ''sb1'')"
  by (simp add: demo_sdk_def has_key_def)

text \<open>
  The witness of claim C9: three jobs on the example object, with a transport that times
  out on the second request. There are three records, the first and the third a success,
  the second a failure with the message of the timeout.
\<close>

theorem execute_batch_records_witness:
  "has_key (active_sandboxes demo_sdk) (PStr ''sb1'')
   \<and> length (fst (run_jobs flaky_env demo_sdk ''sb1'' no_opts three_jobs)) = 3
   \<and> fst (execute_batch flaky_env demo_sdk ''sb1'' three_jobs no_opts)
       = Inr (fst (run_jobs flaky_env demo_sdk ''sb1'' no_opts three_jobs))
   \<and> map br_success (fst (run_jobs flaky_env demo_sdk ''sb1'' no_opts three_jobs))
       = [True, False, True]
   \<and> map br_error (fst (run_jobs flaky_env demo_sdk ''sb1'' no_opts three_jobs))
       = [None, Some ''Request timeout after 30000ms'', None]"
proof -
  have l: "length three_jobs = 3" by (simp add: three_jobs_def)
  show ?thesis
    using execute_batch_records [OF sb1_cached, of flaky_env three_jobs no_opts 0 None]
      sb1_cached three_jobs_flags l
    by simp
qed

text \<open>
  Claim C9 as stated does not hold: the message of a failed job can be empty. With an
  \<open>on_result\<close> callback that raises \<open>ValueError()\<close>, the call of \<open>run_code\<close> raises an
  exception whose \<open>str\<close> is the empty string, and the record of the job has
  \<open>success = False\<close> and the error \<open>""\<close>.
\<close>

theorem execute_batch_empty_error_counterexample:
  "has_key (active_sandboxes demo_sdk) (PStr ''sb1'')
   \<and> fst (run_code demo_env demo_sdk ''sb1'' (PStr ''1+1'')
            (raising_opts\<lparr> opt_timeout_ms := None \<rparr>)) = Inl (PyException ''ValueError'' [])
   \<and> map br_success
        (fst (run_jobs demo_env demo_sdk ''sb1'' raising_opts
                [\<lparr> job_id = PStr ''j1'', job_code = PStr ''1+1'', job_timeout = None \<rparr>]))
       = [False]
   \<and> map br_error
        (fst (run_jobs demo_env demo_sdk ''sb1'' raising_opts
                [\<lparr> job_id = PStr ''j1'', job_code = PStr ''1+1'', job_timeout = None \<rparr>]))
       = [Some []]
   \<and> fst (execute_batch demo_env demo_sdk ''sb1''
            [\<lparr> job_id = PStr ''j1'', job_code = PStr ''1+1'', job_timeout = None \<rparr>] raising_opts)
       = Inr (fst (run_jobs demo_env demo_sdk ''sb1'' raising_opts
                [\<lparr> job_id = PStr ''j1'', job_code = PStr ''1+1'', job_timeout = None \<rparr>]))"
proof -
  have cb: "handle_callbacks env (raising_opts\<lparr> opt_timeout_ms := t \<rparr>)
      \<lparr> results = [r], logs = lg, error = err, execution_count = n \<rparr> now
      = Some (PyException ''ValueError'' [])" for env t r lg err n now
    by (simp add: handle_callbacks_def raising_opts_def no_opts_def first_raised_def)
  have rc: "fst (run_code demo_env demo_sdk ''sb1'' (PStr ''1+1'')
            (raising_opts\<lparr> opt_timeout_ms := None \<rparr>)) = Inl (PyException ''ValueError'' [])"
    by (simp add: run_code_def check_rate_limit_def can_make_request_def
      limiter_record_request_def demo_sdk_def RateLimiter_init_def template_language_def
      demo_sandbox_def dict_get_def make_request_def request_args_def effective_timeout_def
      demo_env_def demo_decode cb Let_def)
  have rj: "map br_success
        (fst (run_jobs demo_env demo_sdk ''sb1'' raising_opts
                [\<lparr> job_id = PStr ''j1'', job_code = PStr ''1+1'', job_timeout = None \<rparr>]))
       = [False]
   \<and> map br_error
        (fst (run_jobs demo_env demo_sdk ''sb1'' raising_opts
                [\<lparr> job_id = PStr ''j1'', job_code = PStr ''1+1'', job_timeout = None \<rparr>]))
       = [Some []]"
    using rc by (simp add: run_job_record case_prod_beta)
  have eb: "fst (execute_batch demo_env demo_sdk ''sb1''
            [\<lparr> job_id = PStr ''j1'', job_code = PStr ''1+1'', job_timeout = None \<rparr>] raising_opts)
       = Inr (fst (run_jobs demo_env demo_sdk ''sb1'' raising_opts
                [\<lparr> job_id = PStr ''j1'', job_code = PStr ''1+1'', job_timeout = None \<rparr>]))"
    using sb1_cached by (simp add: execute_batch_def case_prod_beta)
  from sb1_cached rc rj eb show ?thesis by blast
qed

end
